theory Spec2Isabelle
  imports Complex_Main
begin

section \<open>Audio processing (src/backend/audio_processing.py)\<close>

text \<open>
  Samples are modelled as real numbers (the source holds them in floating point), a loaded
  signal as the pair that \<^verbatim>\<open>librosa.load(path, sr=None, mono=True)\<close> returns, and a
  written file as the arguments handed to \<^verbatim>\<open>sf.write\<close>.
\<close>

type_synonym samples = "real list"

record audio =
  samples :: samples
  rate :: nat

record wav_file =
  frames :: samples
  samplerate :: nat
  subtype :: string

text \<open>
  Exceptions of the source are values. \<open>ValueError\<close> is what \<^verbatim>\<open>np.max\<close> raises on an
  empty array, \<open>KeyError\<close> a missing dictionary key, \<open>AttributeError\<close> a method call on
  \<^verbatim>\<open>None\<close>, \<open>RuntimeError\<close> the engine's own exception and \<open>LibraryError\<close> a failure
  inside an external routine (librosa, the loaded model). \<open>BaseException\<close> stands for
  an exception that is not an \<^verbatim>\<open>Exception\<close> (\<^verbatim>\<open>SystemExit\<close>,
  \<^verbatim>\<open>KeyboardInterrupt\<close>), which an \<^verbatim>\<open>except Exception\<close> clause lets through.
  numpy does not raise on a division by zero (it yields inf or nan); the model makes that
  event the separate outcome \<open>ZeroDivision\<close>, so that its absence can be stated.
\<close>

datatype exn =
    ValueError
  | KeyError
  | AttributeError
  | ZeroDivision
  | RuntimeError string
  | LibraryError string
  | BaseException

definition and_then :: "exn + 'a \<Rightarrow> ('a \<Rightarrow> exn + 'b) \<Rightarrow> exn + 'b" where
  "and_then r f = (case r of Inl e \<Rightarrow> Inl e | Inr v \<Rightarrow> f v)"

text \<open>
  The routines of librosa the module calls are not part of the repository; they are
  parameters of the model. Each may fail with a message of its own, which reaches the
  caller as a \<open>LibraryError\<close>.
\<close>

record dsp =
  pitch_shift :: "samples \<Rightarrow> nat \<Rightarrow> real \<Rightarrow> string + samples"
  time_stretch :: "samples \<Rightarrow> real \<Rightarrow> string + samples"
  resample :: "samples \<Rightarrow> nat \<Rightarrow> nat \<Rightarrow> string + samples"

definition external :: "string + 'a \<Rightarrow> exn + 'a" where
  "external r = (case r of Inl msg \<Rightarrow> Inl (LibraryError msg) | Inr v \<Rightarrow> Inr v)"

definition TARGET_SR :: nat where
  "TARGET_SR = 44100"

definition BIT_DEPTH :: string where
  "BIT_DEPTH = ''PCM_16''"

text \<open>Mood effect parameters: (pitch_semitones_max, speed_max, gain_db_max).\<close>

definition MOOD_PARAMS :: "(string \<times> (real \<times> real \<times> real)) list" where
  "MOOD_PARAMS =
     [(''normal'',  (0,      1,         0)),
      (''upbeat'',  (5 / 2,  118 / 100, 3 / 2)),
      (''angry'',   (- (3 / 2), 112 / 100, 3)),
      (''excited'', (7 / 2,  122 / 100, 2))]"

text \<open>Line 80: \<^verbatim>\<open>mood if mood in MOOD_PARAMS else "normal"\<close>\<close>

definition resolve_mood :: "string \<Rightarrow> string" where
  "resolve_mood mood = (if mood \<in> set (map fst MOOD_PARAMS) then mood else ''normal'')"

text \<open>Line 82: \<^verbatim>\<open>factor = (max(1, min(5, intensity)) - 1) / 4.0\<close>\<close>

definition factor_of :: "int \<Rightarrow> real" where
  "factor_of intensity = real_of_int (max 1 (min 5 intensity) - 1) / 4"

text \<open>
  Lines 83, 89, 94 and 99: the profile \<^verbatim>\<open>MOOD_PARAMS[mood]\<close> and the three values
  derived from it, \<^verbatim>\<open>n_steps = pitch_max * factor\<close>,
  \<^verbatim>\<open>rate = 1.0 + (speed_max - 1.0) * factor\<close> and
  \<^verbatim>\<open>gain_lin = 10 ** (gain_max * factor / 20.0)\<close>.
\<close>

definition effect_params :: "string \<Rightarrow> real \<Rightarrow> exn + (real \<times> real \<times> real)" where
  "effect_params mood factor =
     (case map_of MOOD_PARAMS mood of
        None \<Rightarrow> Inl KeyError
      | Some (pitch_max, speed_max, gain_max) \<Rightarrow>
          Inr (pitch_max * factor,
               1 + (speed_max - 1) * factor,
               10 powr (gain_max * factor / 20)))"

text \<open>Line 105: \<^verbatim>\<open>clip_threshold = 0.85 - 0.15 * factor\<close>\<close>

definition clip_threshold_of :: "real \<Rightarrow> real" where
  "clip_threshold_of factor = 85 / 100 - 15 / 100 * factor"

text \<open>Line 106: \<^verbatim>\<open>np.tanh(y / clip_threshold) * clip_threshold\<close>\<close>

definition soft_clip :: "real \<Rightarrow> samples \<Rightarrow> samples" where
  "soft_clip clip_threshold y = map (\<lambda>s. tanh (s / clip_threshold) * clip_threshold) y"

text \<open>Lines 103 to 106, the distortion of the angry mood.\<close>

definition distortion_stage :: "string \<Rightarrow> real \<Rightarrow> samples \<Rightarrow> samples" where
  "distortion_stage mood factor y =
     (if mood = ''angry'' \<and> factor > 2 / 10
      then soft_clip (clip_threshold_of factor) y
      else y)"

text \<open>\<^verbatim>\<open>np.max(np.abs(y))\<close>, which raises on an empty array.\<close>

definition peak_of :: "samples \<Rightarrow> exn + real" where
  "peak_of y = (if y = [] then Inl ValueError else Inr (Max (set (map abs y))))"

text \<open>\<^verbatim>\<open>y * (target / peak)\<close>\<close>

definition scale_by :: "real \<Rightarrow> real \<Rightarrow> samples \<Rightarrow> exn + samples" where
  "scale_by target peak y =
     (if peak = 0 then Inl ZeroDivision else Inr (map (\<lambda>s. s * (target / peak)) y))"

text \<open>Lines 109 to 111, the normalisation that prevents clipping.\<close>

definition normalize_stage :: "samples \<Rightarrow> exn + samples" where
  "normalize_stage y =
     and_then (peak_of y)
       (\<lambda>peak. if peak > 98 / 100 then scale_by (95 / 100) peak y else Inr y)"

text \<open>
  \<^verbatim>\<open>apply_mood\<close>, lines 83 to 100, on the resolved mood and the factor: the
  parameters, the pitch shift unless \<open>\<bar>n_steps\<bar> \<le> 0.01\<close>, the time stretch unless
  \<open>\<bar>rate - 1\<bar> \<le> 0.005\<close>, and the gain.
\<close>

definition gain_chain :: "dsp \<Rightarrow> audio \<Rightarrow> string \<Rightarrow> real \<Rightarrow> exn + samples" where
  "gain_chain lib inp mood factor =
     and_then (effect_params mood factor)
       (\<lambda>(n_steps, rate, gain_lin).
         let y = samples inp;
             sr = audio.rate inp
         in and_then (if \<bar>n_steps\<bar> > 1 / 100
                      then external (pitch_shift lib y sr n_steps) else Inr y)
            (\<lambda>y.
              and_then (if \<bar>rate - 1\<bar> > 5 / 1000
                        then external (time_stretch lib y rate) else Inr y)
              (\<lambda>y. Inr (map (\<lambda>s. s * gain_lin) y))))"

text \<open>
  The body of \<^verbatim>\<open>apply_mood\<close> from the loaded signal up to the peak normalisation
  (lines 80 to 111): mood and factor, then pitch shift, time stretch and gain, then the
  distortion and the normalisation.
\<close>

definition mood_chain :: "dsp \<Rightarrow> audio \<Rightarrow> string \<Rightarrow> int \<Rightarrow> exn + samples" where
  "mood_chain lib inp mood0 intensity =
     (let mood = resolve_mood mood0;
          factor = factor_of intensity
      in and_then (gain_chain lib inp mood factor)
           (\<lambda>y. normalize_stage (distortion_stage mood factor y)))"

text \<open>
  \<^verbatim>\<open>apply_mood\<close>: the chain, then the resampling to 44100 Hz when the input rate
  differs (lines 113 to 116) and the write as 16-bit PCM (line 119).
\<close>

definition apply_mood :: "dsp \<Rightarrow> audio \<Rightarrow> string \<Rightarrow> int \<Rightarrow> exn + wav_file" where
  "apply_mood lib inp mood intensity =
     and_then (mood_chain lib inp mood intensity)
       (\<lambda>y.
         let sr = audio.rate inp
         in and_then (if sr \<noteq> TARGET_SR
                      then and_then (external (resample lib y sr TARGET_SR))
                             (\<lambda>y'. Inr (y', TARGET_SR))
                      else Inr (y, sr))
            (\<lambda>(y, sr). Inr \<lparr>frames = y, samplerate = sr, subtype = BIT_DEPTH\<rparr>))"

text \<open>
  \<^verbatim>\<open>normalize_wav\<close> (lines 124 to 138): resample, then scale the peak to 0.9 when it
  is positive, and write at the target rate.
\<close>

definition normalize_wav :: "dsp \<Rightarrow> audio \<Rightarrow> exn + wav_file" where
  "normalize_wav lib inp =
     (let y = samples inp;
          sr = audio.rate inp
      in and_then (if sr \<noteq> TARGET_SR
                   then external (resample lib y sr TARGET_SR) else Inr y)
         (\<lambda>y.
           and_then (peak_of y)
           (\<lambda>peak.
             and_then (if peak > 0 then scale_by (9 / 10) peak y else Inr y)
             (\<lambda>y. Inr \<lparr>frames = y, samplerate = TARGET_SR, subtype = BIT_DEPTH\<rparr>))))"

text \<open>
  A resampler to run the chain with: it doubles the rate, keeps every input sample and
  puts between two neighbours the value of the four-point cubic through them and their
  own neighbours (the first and the last sample are repeated at the ends). Like the
  band-limited interpolation of \<^verbatim>\<open>librosa.resample\<close>, it can rise above the samples
  it interpolates.
\<close>

fun cubic_fill :: "real \<Rightarrow> samples \<Rightarrow> samples" where
  "cubic_fill p (a # b # c # rest) =
     a # ((- p + 9 * a + 9 * b - c) / 16) # cubic_fill a (b # c # rest)"
| "cubic_fill p [a, b] = [a, (- p + 9 * a + 9 * b - b) / 16, b]"
| "cubic_fill p y = y"

definition cubic_double :: "samples \<Rightarrow> nat \<Rightarrow> nat \<Rightarrow> string + samples" where
  "cubic_double y orig_sr target_sr =
     (if target_sr = 2 * orig_sr
      then Inr (case y of [] \<Rightarrow> [] | a # rest \<Rightarrow> cubic_fill a y)
      else Inl ''unsupported ratio'')"

text \<open>
  External routines to run the chain with on concrete signals: a pitch shift and a time
  stretch that return the signal as it is, and the resampler above.
\<close>

definition plain_dsp :: dsp where
  "plain_dsp =
     \<lparr>pitch_shift = (\<lambda>y sr n_steps. Inr y),
      time_stretch = (\<lambda>y rate. Inr y),
      resample = cubic_double\<rparr>"

section \<open>TTS engine (src/backend/tts_engine.py)\<close>

definition XTTS_LANGUAGES :: "string list" where
  "XTTS_LANGUAGES =
     [''pt'', ''en'', ''es'', ''fr'', ''de'', ''it'', ''pl'',
      ''tr'', ''ru'', ''nl'', ''cs'', ''ar'', ''zh-cn'', ''ja'', ''hu'', ''ko'']"

definition ESPEAK_VOICE_MAP :: "(string \<times> string) list" where
  "ESPEAK_VOICE_MAP =
     [(''pt'', ''pt-br''), (''en'', ''en-us''), (''es'', ''es''), (''fr'', ''fr''),
      (''de'', ''de''), (''it'', ''it''), (''pl'', ''pl''), (''tr'', ''tr''),
      (''ru'', ''ru''), (''nl'', ''nl''), (''cs'', ''cs''), (''ar'', ''ar''),
      (''zh-cn'', ''cmn''), (''ja'', ''ja''), (''hu'', ''hu''), (''ko'', ''ko'')]"

definition MODEL_NAME :: string where
  "MODEL_NAME = ''tts_models/multilingual/multi-dataset/xtts_v2''"

text \<open>
  The fields of \<^verbatim>\<open>TTSEngine\<close>. \<^verbatim>\<open>_status\<close> holds one of four strings and
  \<^verbatim>\<open>_backend\<close> is \<^verbatim>\<open>None\<close> or one of two; the loaded model is known by the name
  it was built from.
\<close>

datatype status = Idle | Loading | Ready | Error

datatype backend_kind = Xtts | Espeak

datatype tts_handle = TTS string

record engine =
  tts :: "tts_handle option"
  status :: status
  error_msg :: "string option"
  backend :: "backend_kind option"

text \<open>\<^verbatim>\<open>__init__\<close>\<close>

definition init :: engine where
  "init = \<lparr>tts = None, status = Idle, error_msg = None, backend = None\<rparr>"

text \<open>The properties \<^verbatim>\<open>is_ready\<close> and \<^verbatim>\<open>backend\<close>.\<close>

definition is_ready :: "engine \<Rightarrow> bool" where
  "is_ready s = (status s = Ready)"

definition backend_name :: "engine \<Rightarrow> string" where
  "backend_name s =
     (case backend s of None \<Rightarrow> ''none'' | Some Xtts \<Rightarrow> ''xtts'' | Some Espeak \<Rightarrow> ''espeak'')"

text \<open>
  What one load attempt meets outside the engine. The import and the call
  \<^verbatim>\<open>TTS(MODEL_NAME, progress_bar=False)\<close> return the model, or raise an
  \<^verbatim>\<open>Exception\<close> with the text \<open>e\<close>, or raise something that is not an
  \<^verbatim>\<open>Exception\<close> (\<^verbatim>\<open>SystemExit\<close>, \<^verbatim>\<open>KeyboardInterrupt\<close>);
  \<^verbatim>\<open>shutil.which("espeak-ng")\<close> finds the tool or not.
\<close>

datatype load_result = Loaded tts_handle | Failed string | Aborted

record load_env =
  tts_load :: "string \<Rightarrow> load_result"
  which_espeak :: bool

text \<open>
  \<^verbatim>\<open>_load_model\<close>, lines 84 to 87, one critical section: return at once when the
  status is ready or loading, otherwise set it to loading and go on.
\<close>

definition load_begin :: "engine \<Rightarrow> bool \<times> engine" where
  "load_begin s =
     (if status s = Ready \<or> status s = Loading then (False, s)
      else (True, s\<lparr>status := Loading\<rparr>))"

text \<open>
  \<^verbatim>\<open>_load_model\<close>, lines 89 to 110: the load and the assignment of its outcome. The
  result is what the function raises, if anything, and the engine it leaves. Line 98
  catches \<^verbatim>\<open>Exception\<close> only: anything else leaves the function with no assignment
  made.
\<close>

definition load_finish :: "load_env \<Rightarrow> engine \<Rightarrow> exn option \<times> engine" where
  "load_finish env s =
     (case tts_load env MODEL_NAME of
        Loaded t \<Rightarrow> (None, s\<lparr>tts := Some t, status := Ready, backend := Some Xtts\<rparr>)
      | Failed e \<Rightarrow>
          if which_espeak env
          then (None, s\<lparr>status := Ready, backend := Some Espeak, error_msg := Some e\<rparr>)
          else (None, s\<lparr>status := Error, error_msg := Some e\<rparr>)
      | Aborted \<Rightarrow> (Some BaseException, s))"

text \<open>\<^verbatim>\<open>_load_model\<close> run by one thread with no other thread in between.\<close>

definition load_model :: "load_env \<Rightarrow> engine \<Rightarrow> exn option \<times> engine" where
  "load_model env s =
     (case load_begin s of
        (False, s') \<Rightarrow> (None, s')
      | (True, s') \<Rightarrow> load_finish env s')"

text \<open>
  Several threads: \<^verbatim>\<open>initialize_async\<close> starts a thread that runs
  \<^verbatim>\<open>_load_model\<close>, and \<^verbatim>\<open>ensure_ready\<close> runs it inline. The lock makes lines 84 to
  87 one step and each final assignment one step, so an execution is a sequence of events:
  \<open>Enter\<close>, a thread passes lines 84 to 87, and \<open>Leave env\<close>, a thread that went on
  comes to the end of lines 89 to 110 with the outcome \<open>env\<close> (what it raises there ends
  the thread and reaches no caller). \<open>attempts\<close> counts the threads between the two.
  \<open>fire\<close> is \<open>None\<close> for an event that cannot happen.
\<close>

record system =
  eng :: engine
  attempts :: nat

datatype event = Enter | Leave load_env

fun fire :: "event \<Rightarrow> system \<Rightarrow> system option" where
  "fire Enter c =
     (case load_begin (eng c) of
        (True, s') \<Rightarrow> Some \<lparr>eng = s', attempts = Suc (attempts c)\<rparr>
      | (False, s') \<Rightarrow> Some \<lparr>eng = s', attempts = attempts c\<rparr>)"
| "fire (Leave env) c =
     (if attempts c = 0 then None
      else Some \<lparr>eng = snd (load_finish env (eng c)), attempts = attempts c - 1\<rparr>)"

fun run :: "event list \<Rightarrow> system \<Rightarrow> system option" where
  "run [] c = Some c"
| "run (e # es) c = (case fire e c of None \<Rightarrow> None | Some c' \<Rightarrow> run es c')"

definition start :: system where
  "start = \<lparr>eng = init, attempts = 0\<rparr>"

text \<open>
  \<^verbatim>\<open>ensure_ready\<close>, the loop of lines 118 to 121: up to \<open>n\<close> times, sleep a second and
  look at the status. \<open>observed k\<close> is the engine as it is after the \<open>k\<close>-th second
  (other threads change it); the result is the number of seconds slept.
\<close>

fun wait_ready :: "(nat \<Rightarrow> engine) \<Rightarrow> nat \<Rightarrow> nat \<Rightarrow> nat" where
  "wait_ready observed 0 k = k"
| "wait_ready observed (Suc n) k =
     (if status (observed (Suc k)) = Ready \<or> status (observed (Suc k)) = Error
      then Suc k
      else wait_ready observed n (Suc k))"

text \<open>The text of \<^verbatim>\<open>self._error_msg\<close> in an f-string.\<close>

definition show_msg :: "string option \<Rightarrow> string" where
  "show_msg m = (case m of None \<Rightarrow> ''None'' | Some e \<Rightarrow> e)"

text \<open>
  \<^verbatim>\<open>ensure_ready\<close> (lines 112 to 125). The result is the exception raised, if any,
  and the engine as the final checks see it: the engine after the inline load, the one
  observed at the end of the wait, or the one given. What the inline load raises goes on
  to the caller.
\<close>

definition ensure_ready ::
  "load_env \<Rightarrow> (nat \<Rightarrow> engine) \<Rightarrow> engine \<Rightarrow> exn option \<times> engine" where
  "ensure_ready env observed s =
     (case (if status s = Idle then load_model env s
            else if status s = Loading then (None, observed (wait_ready observed 600 0))
            else (None, s)) of
        (Some e, s) \<Rightarrow> (Some e, s)
      | (None, s) \<Rightarrow>
          if status s = Error \<and> backend s = None
          then (Some (RuntimeError (''TTS engine failed to initialize: ''
                                    @ show_msg (error_msg s))), s)
          else if status s \<noteq> Ready
          then (Some (RuntimeError ''TTS engine not ready.''), s)
          else (None, s))"

text \<open>
  The two synthesisers are outside the repository: \<^verbatim>\<open>tts_to_file\<close> of the loaded
  model, which writes a file or fails, and the \<^verbatim>\<open>espeak-ng\<close> process, which gives a
  return code, its error output and the signal that \<^verbatim>\<open>librosa.load\<close> reads back from
  the file it wrote.
\<close>

record synth =
  tts_to_file :: "tts_handle \<Rightarrow> string \<Rightarrow> string \<Rightarrow> string \<Rightarrow> string + wav_file"
  espeak_ng :: "string \<Rightarrow> string \<Rightarrow> int \<times> string \<times> audio"

text \<open>\<^verbatim>\<open>_generate_xtts\<close> (lines 156 to 167)\<close>

definition generate_xtts ::
  "synth \<Rightarrow> engine \<Rightarrow> string \<Rightarrow> string \<Rightarrow> string \<Rightarrow> exn + wav_file" where
  "generate_xtts syn s text speaker_wav language =
     (let lang = (if language \<in> set XTTS_LANGUAGES then language else ''pt'')
      in case tts s of
           None \<Rightarrow> Inl AttributeError
         | Some t \<Rightarrow> external (tts_to_file syn t text speaker_wav lang))"

text \<open>Line 170: \<^verbatim>\<open>ESPEAK_VOICE_MAP.get(language, "pt-br")\<close>\<close>

definition espeak_voice :: "string \<Rightarrow> string" where
  "espeak_voice language =
     (case map_of ESPEAK_VOICE_MAP language of Some v \<Rightarrow> v | None \<Rightarrow> ''pt-br'')"

text \<open>\<^verbatim>\<open>_generate_espeak\<close> (lines 169 to 198)\<close>

definition generate_espeak :: "dsp \<Rightarrow> synth \<Rightarrow> string \<Rightarrow> string \<Rightarrow> exn + wav_file" where
  "generate_espeak lib syn text language =
     (let voice = espeak_voice language
      in case espeak_ng syn voice text of
           (returncode, stderr, raw) \<Rightarrow>
             if returncode \<noteq> 0 then Inl (RuntimeError (''espeak-ng error: '' @ stderr))
             else
               let y = samples raw;
                   sr = audio.rate raw
               in and_then (if sr \<noteq> 44100
                            then external (resample lib y sr 44100) else Inr y)
                  (\<lambda>y.
                    and_then (peak_of y)
                    (\<lambda>peak.
                      and_then (if peak > 0 then scale_by (85 / 100) peak y else Inr y)
                      (\<lambda>y. Inr \<lparr>frames = y, samplerate = 44100, subtype = ''PCM_16''\<rparr>))))"

text \<open>\<^verbatim>\<open>generate\<close> (lines 127 to 154)\<close>

definition generate ::
  "dsp \<Rightarrow> load_env \<Rightarrow> synth \<Rightarrow> (nat \<Rightarrow> engine) \<Rightarrow> engine \<Rightarrow>
   string \<Rightarrow> string \<Rightarrow> string \<Rightarrow> (exn + wav_file) \<times> engine" where
  "generate lib env syn observed s text speaker_wav language =
     (case ensure_ready env observed s of
        (Some e, s') \<Rightarrow> (Inl e, s')
      | (None, s') \<Rightarrow>
          (if backend s' = Some Xtts
           then generate_xtts syn s' text speaker_wav language
           else generate_espeak lib syn text language, s'))"

section \<open>Facts about the tables\<close>

lemma mood_lookup:
  "map_of MOOD_PARAMS m =
     (if m = ''normal'' then Some (0, 1, 0)
      else if m = ''upbeat'' then Some (5 / 2, 118 / 100, 3 / 2)
      else if m = ''angry'' then Some (- (3 / 2), 112 / 100, 3)
      else if m = ''excited'' then Some (7 / 2, 122 / 100, 2)
      else None)"
  by (simp add: MOOD_PARAMS_def)

lemma resolve_mood_angry: "resolve_mood m = ''angry'' \<longleftrightarrow> m = ''angry''"
  by (simp add: resolve_mood_def MOOD_PARAMS_def)

lemma factor_of_cases:
  "factor_of i = (if i \<le> 1 then 0 else if i = 2 then 1 / 4 else if i = 3 then 1 / 2
                  else if i = 4 then 3 / 4 else 1)"
proof -
  consider "i \<le> 1" | "i = 2" | "i = 3" | "i = 4" | "5 \<le> i" by linarith
  then show ?thesis
    by cases (simp_all add: factor_of_def)
qed

lemma peak_of_bound:
  assumes "peak_of y = Inr p" "s \<in> set y"
  shows "\<bar>s\<bar> \<le> p"
proof -
  from assms have "p = Max (set (map abs y))" by (simp add: peak_of_def split: if_splits)
  moreover have "\<bar>s\<bar> \<in> set (map abs y)" using assms(2) by simp
  ultimately show ?thesis by (simp add: Max_ge)
qed

lemma peak_of_nonneg: "peak_of y = Inr p \<Longrightarrow> 0 \<le> p"
proof -
  assume a: "peak_of y = Inr p"
  then have "y \<noteq> []" by (auto simp: peak_of_def)
  then obtain s where "s \<in> set y" by (cases y) auto
  from peak_of_bound[OF a this] show ?thesis by linarith
qed

lemma peak_of_silent: "y \<noteq> [] \<Longrightarrow> \<forall>s\<in>set y. s = 0 \<Longrightarrow> peak_of y = Inr 0"
proof -
  assume a: "y \<noteq> []" "\<forall>s\<in>set y. s = 0"
  then have "set (map abs y) = {0}" by (cases y) auto
  with a show ?thesis by (simp add: peak_of_def)
qed

section \<open>The normal mood\<close>

lemma normal_params: "effect_params ''normal'' f = Inr (0, 1, 1)"
  by (simp add: effect_params_def mood_lookup)

lemma normal_gain_chain: "gain_chain lib inp ''normal'' f = Inr (samples inp)"
  by (simp add: gain_chain_def normal_params and_then_def)

lemma normal_chain: "mood_chain lib inp ''normal'' i = normalize_stage (samples inp)"
  by (simp add: mood_chain_def resolve_mood_def MOOD_PARAMS_def
      normal_gain_chain [unfolded MOOD_PARAMS_def] and_then_def distortion_stage_def)

lemma normalize_stage_value:
  "y \<noteq> [] \<Longrightarrow>
   normalize_stage y =
     Inr (if Max (set (map abs y)) > 98 / 100
          then map (\<lambda>s. s * (95 / 100 / Max (set (map abs y)))) y else y)"
  by (auto simp: normalize_stage_def peak_of_def and_then_def scale_by_def)

text \<open>
  C3, as the code has it. For the mood \<open>normal\<close> and every intensity the derived
  parameters are pitch steps 0, speed rate 1 and linear gain 1; neither the pitch shift nor
  the time stretch is called, so the chain is the peak normalisation of the input alone:
  a signal whose peak is at most 0.98 is left as it is, a louder one is scaled by
  0.95/peak. The length of the signal is that of the input, and the written frames are
  this signal, resampled when the input rate is not 44100 Hz.
\<close>

theorem normal_mood_unchanged_up_to_peak:
  "effect_params (resolve_mood ''normal'') (factor_of i) = Inr (0, 1, 1)
   \<and> mood_chain lib inp ''normal'' i = normalize_stage (samples inp)
   \<and> (samples inp \<noteq> [] \<longrightarrow>
        mood_chain lib inp ''normal'' i =
          Inr (if Max (set (map abs (samples inp))) > 98 / 100
               then map (\<lambda>s. s * (95 / 100 / Max (set (map abs (samples inp))))) (samples inp)
               else samples inp))
   \<and> (mood_chain lib inp ''normal'' i = Inr y \<longrightarrow> length y = length (samples inp))
   \<and> apply_mood lib inp ''normal'' i =
       and_then (normalize_stage (samples inp))
         (\<lambda>y. if audio.rate inp = 44100
              then Inr \<lparr>frames = y, samplerate = 44100, subtype = ''PCM_16''\<rparr>
              else and_then (external (resample lib y (audio.rate inp) 44100))
                     (\<lambda>y'. Inr \<lparr>frames = y', samplerate = 44100, subtype = ''PCM_16''\<rparr>))"
proof -
  have len: "length y = length (samples inp)" if "mood_chain lib inp ''normal'' i = Inr y"
  proof -
    from that have n: "normalize_stage (samples inp) = Inr y" by (simp add: normal_chain)
    then have "samples inp \<noteq> []"
      by (auto simp: normalize_stage_def peak_of_def and_then_def)
    from normalize_stage_value[OF this] n show ?thesis by (auto split: if_splits)
  qed
  have app: "apply_mood lib inp ''normal'' i =
       and_then (normalize_stage (samples inp))
         (\<lambda>y. if audio.rate inp = 44100
              then Inr \<lparr>frames = y, samplerate = 44100, subtype = ''PCM_16''\<rparr>
              else and_then (external (resample lib y (audio.rate inp) 44100))
                     (\<lambda>y'. Inr \<lparr>frames = y', samplerate = 44100, subtype = ''PCM_16''\<rparr>))"
    by (auto simp: apply_mood_def normal_chain and_then_def TARGET_SR_def BIT_DEPTH_def
        split: sum.splits)
  show ?thesis
    using len app
    by (simp add: normal_chain normalize_stage_value resolve_mood_def MOOD_PARAMS_def
        normal_params[unfolded MOOD_PARAMS_def])
qed

theorem normal_mood_unchanged_up_to_peak_witness:
  "samples \<lparr>samples = [1 / 2, - (1 / 4)], rate = 44100\<rparr> \<noteq> []
   \<and> mood_chain plain_dsp \<lparr>samples = [1 / 2, - (1 / 4)], rate = 44100\<rparr> ''normal'' 2
       = Inr [1 / 2, - (1 / 4)]
   \<and> length [1 / 2, - (1 / 4) :: real]
       = length (samples \<lparr>samples = [1 / 2, - (1 / 4)], rate = 44100\<rparr>)"
proof -
  note t = normal_mood_unchanged_up_to_peak
    [of 2 plain_dsp "\<lparr>samples = [1 / 2, - (1 / 4)], rate = 44100\<rparr>" "[1 / 2, - (1 / 4)]"]
  from t [THEN conjunct2, THEN conjunct2, THEN conjunct1]
  have a: "mood_chain plain_dsp \<lparr>samples = [1 / 2, - (1 / 4)], rate = 44100\<rparr> ''normal'' 2
       = Inr [1 / 2, - (1 / 4)]"
    by simp
  from t [THEN conjunct2, THEN conjunct2, THEN conjunct2, THEN conjunct1] a
  have "length [1 / 2, - (1 / 4) :: real]
       = length (samples \<lparr>samples = [1 / 2, - (1 / 4)], rate = 44100\<rparr>)"
    by blast
  with a show ?thesis by simp
qed

text \<open>
  C3 as stated says the samples are unchanged apart from resampling and format. A signal
  at 44100 Hz with peak 1 is not resampled, and yet it is written scaled by 0.95.
\<close>

theorem normal_mood_scales_loud_input:
  "apply_mood plain_dsp \<lparr>samples = [1, - (1 / 2)], rate = 44100\<rparr> ''normal'' 3
     = Inr \<lparr>frames = [95 / 100, - (95 / 200)], samplerate = 44100, subtype = ''PCM_16''\<rparr>
   \<and> [95 / 100, - (95 / 200)] \<noteq> [1, - (1 / 2) :: real]"
  by (simp add: apply_mood_def mood_chain_def gain_chain_def effect_params_def mood_lookup
      resolve_mood_def factor_of_cases distortion_stage_def normalize_stage_def peak_of_def
      scale_by_def and_then_def external_def plain_dsp_def TARGET_SR_def BIT_DEPTH_def)

section \<open>The distortion of the angry mood\<close>

lemma factor_of_gt: "factor_of i > 2 / 10 \<longleftrightarrow> 2 \<le> i"
  by (simp add: factor_of_cases)

lemma distortion_stage_unfolded:
  "distortion_stage (resolve_mood m) f y =
     (if m = ''angry'' \<and> f > 2 / 10
      then map (\<lambda>s. tanh (s / (85 / 100 - 15 / 100 * f)) * (85 / 100 - 15 / 100 * f)) y
      else y)"
  by (simp add: distortion_stage_def resolve_mood_angry soft_clip_def clip_threshold_of_def)

text \<open>
  C4. The soft clip is applied exactly when the mood is \<open>angry\<close> and the factor is
  above 0.2 (an intensity of 2 or more); it then maps each sample \<open>s\<close> to
  \<open>tanh (s / t) * t\<close> with \<open>t = 0.85 - 0.15 * factor\<close>. For a factor of at most 0.2,
  and for every other mood, the gain stage feeds the normalisation directly.
\<close>

theorem soft_clip_only_angry_above_fifth:
  "mood_chain lib inp m i =
     and_then (gain_chain lib inp (resolve_mood m) (factor_of i))
       (\<lambda>y. normalize_stage
          (if m = ''angry'' \<and> factor_of i > 2 / 10
           then map (\<lambda>s. tanh (s / (85 / 100 - 15 / 100 * factor_of i))
                          * (85 / 100 - 15 / 100 * factor_of i)) y
           else y))
   \<and> (factor_of i \<le> 2 / 10 \<longrightarrow>
        mood_chain lib inp m i =
          and_then (gain_chain lib inp (resolve_mood m) (factor_of i)) normalize_stage)
   \<and> distortion_stage (resolve_mood m) f y =
       (if m = ''angry'' \<and> f > 2 / 10
        then map (\<lambda>s. tanh (s / (85 / 100 - 15 / 100 * f)) * (85 / 100 - 15 / 100 * f)) y
        else y)
   \<and> (factor_of i > 2 / 10 \<longleftrightarrow> 2 \<le> i)"
proof -
  have a: "mood_chain lib inp m i =
     and_then (gain_chain lib inp (resolve_mood m) (factor_of i))
       (\<lambda>y. normalize_stage
          (if m = ''angry'' \<and> factor_of i > 2 / 10
           then map (\<lambda>s. tanh (s / (85 / 100 - 15 / 100 * factor_of i))
                          * (85 / 100 - 15 / 100 * factor_of i)) y
           else y))"
    by (simp add: mood_chain_def Let_def distortion_stage_unfolded)
  have b: "mood_chain lib inp m i =
          and_then (gain_chain lib inp (resolve_mood m) (factor_of i)) normalize_stage"
    if "factor_of i \<le> 2 / 10"
  proof -
    from that have "\<not> factor_of i > 2 / 10" by simp
    then have "(\<lambda>y. normalize_stage (distortion_stage (resolve_mood m) (factor_of i) y))
        = normalize_stage"
      by (simp add: distortion_stage_def)
    then show ?thesis by (simp add: mood_chain_def Let_def)
  qed
  from a b distortion_stage_unfolded [of m f y] factor_of_gt [of i] show ?thesis
    by blast
qed

theorem soft_clip_only_angry_above_fifth_witness:
  "factor_of 1 \<le> 2 / 10
   \<and> mood_chain plain_dsp \<lparr>samples = [1 / 2], rate = 44100\<rparr> ''angry'' 1 = Inr [1 / 2]"
  using soft_clip_only_angry_above_fifth
    [of plain_dsp "\<lparr>samples = [1 / 2], rate = 44100\<rparr>" "''angry''" 1,
     THEN conjunct2, THEN conjunct1]
  by (simp add: factor_of_cases gain_chain_def effect_params_def mood_lookup resolve_mood_def
      MOOD_PARAMS_def and_then_def normalize_stage_def peak_of_def)

section \<open>Derived effect parameters\<close>

lemma factor_of_bounds: "0 \<le> factor_of i \<and> factor_of i \<le> 1"
  by (simp add: factor_of_cases)

lemma factor_of_mono: "i \<le> j \<Longrightarrow> factor_of i \<le> factor_of j"
  by (simp add: factor_of_def divide_right_mono)

text \<open>
  C5. For every integer intensity the factor \<open>(clamp(intensity, 1, 5) - 1) / 4\<close> lies in
  \<open>[0, 1]\<close> and does not decrease when the intensity grows; the mood does not enter it.
  At intensity 5 the factor is 1 and, for the mood \<open>angry\<close>, the clip threshold is
  0.70.
\<close>

theorem factor_range_and_angry_maximum:
  "0 \<le> factor_of i \<and> factor_of i \<le> 1
   \<and> (i \<le> j \<longrightarrow> factor_of i \<le> factor_of j)
   \<and> factor_of 5 = 1
   \<and> clip_threshold_of (factor_of 5) = 7 / 10
   \<and> distortion_stage (resolve_mood ''angry'') (factor_of 5) y = soft_clip (7 / 10) y"
  by (simp add: factor_of_bounds factor_of_mono resolve_mood_angry distortion_stage_def
      clip_threshold_of_def factor_of_cases)

theorem factor_range_and_angry_maximum_witness:
  "(2::int) \<le> 4 \<and> factor_of 2 \<le> factor_of 4 \<and> factor_of 2 = 1 / 4 \<and> factor_of 4 = 3 / 4"
  using factor_range_and_angry_maximum [of 2 4] by (simp add: factor_of_cases)

lemma root_of_power:
  fixes c :: real
  assumes "0 < c" "0 < b"
  shows "(c ^ b) powr (1 / real b) = c"
proof -
  have "(c ^ b) powr (1 / real b) = (c powr real b) powr (1 / real b)"
    using assms by (simp add: powr_realpow)
  also have "\<dots> = c powr (real b * (1 / real b))"
    by (simp only: powr_powr)
  also have "\<dots> = c" using assms by simp
  finally show ?thesis .
qed

lemma powr_ratio:
  fixes x :: real
  assumes "0 < x"
  shows "x powr (real a / real b) = (x ^ a) powr (1 / real b)"
proof -
  have "(x ^ a) powr (1 / real b) = (x powr real a) powr (1 / real b)"
    using assms by (simp add: powr_realpow)
  also have "\<dots> = x powr (real a * (1 / real b))" by (simp only: powr_powr)
  finally show ?thesis by simp
qed

lemma powr_ratio_less:
  fixes x c :: real
  assumes "0 < x" "0 < c" "0 < b" "x ^ a < c ^ b"
  shows "x powr (real a / real b) < c"
proof -
  have "(x ^ a) powr (1 / real b) < (c ^ b) powr (1 / real b)"
    using assms by (intro powr_less_mono2) simp_all
  then show ?thesis using assms by (simp only: powr_ratio root_of_power)
qed

lemma powr_ratio_greater:
  fixes x c :: real
  assumes "0 < x" "0 < c" "0 < b" "c ^ b < x ^ a"
  shows "c < x powr (real a / real b)"
proof -
  have "(c ^ b) powr (1 / real b) < (x ^ a) powr (1 / real b)"
    using assms by (intro powr_less_mono2) simp_all
  then show ?thesis using assms by (simp only: powr_ratio root_of_power)
qed

lemma upbeat_gain_upper: "(10::real) powr (3 / 80) < 10902 / 10000"
  using powr_ratio_less [of 10 "10902 / 10000" 80 3] by (simp add: power_divide)

lemma upbeat_gain_lower: "(10901 / 10000 :: real) < 10 powr (3 / 80)"
  using powr_ratio_greater [of 10 "10901 / 10000" 80 3] by (simp add: power_divide)

lemma upbeat_3: "effect_params ''upbeat'' (factor_of 3) = Inr (5 / 4, 109 / 100, 10 powr (3 / 80))"
  by (simp add: effect_params_def mood_lookup factor_of_cases)

text \<open>
  C6 as stated gives a linear gain of about 1.19 for \<open>upbeat\<close> at intensity 3. The
  code computes \<open>10 ** (1.5 * 0.5 / 20)\<close>, which is below 1.185.
\<close>

theorem upbeat_3_gain_below_1_19:
  "effect_params ''upbeat'' (factor_of 3) = Inr (5 / 4, 109 / 100, 10 powr (3 / 80))
   \<and> (10::real) powr (3 / 80) < 119 / 100 - 5 / 1000"
proof -
  have "(10::real) powr (3 / 80) < 119 / 100 - 5 / 1000"
    using upbeat_gain_upper by simp
  with upbeat_3 show ?thesis by simp
qed

text \<open>
  C6, as the code has it. For \<open>upbeat\<close> at intensity 3 the factor is 0.5, the pitch
  steps are 1.25 semitones, the speed rate is 1.09 and the linear gain is
  \<open>10 ** 0.0375\<close>, between 1.0901 and 1.0902.
\<close>

theorem upbeat_3_parameters:
  "factor_of 3 = 1 / 2
   \<and> effect_params (resolve_mood ''upbeat'') (factor_of 3)
       = Inr (5 / 4, 109 / 100, 10 powr (3 / 80))
   \<and> 10901 / 10000 < (10::real) powr (3 / 80)
   \<and> (10::real) powr (3 / 80) < 10902 / 10000"
proof -
  have "resolve_mood ''upbeat'' = ''upbeat''"
    by (simp add: resolve_mood_def MOOD_PARAMS_def)
  with upbeat_3 upbeat_gain_lower upbeat_gain_upper show ?thesis
    by (simp add: factor_of_cases)
qed

section \<open>What is written\<close>

lemma apply_mood_format:
  "apply_mood lib inp m i = Inr w \<Longrightarrow> samplerate w = 44100 \<and> subtype w = ''PCM_16''"
  by (auto simp: apply_mood_def and_then_def Let_def TARGET_SR_def BIT_DEPTH_def
      split: sum.splits if_splits)

lemma normalize_wav_format:
  "normalize_wav lib inp = Inr w \<Longrightarrow> samplerate w = 44100 \<and> subtype w = ''PCM_16''"
  by (auto simp: normalize_wav_def and_then_def Let_def TARGET_SR_def BIT_DEPTH_def
      split: sum.splits if_splits)

text \<open>
  C9. Whatever the rate of the input, a file written by \<^verbatim>\<open>apply_mood\<close> or by
  \<^verbatim>\<open>normalize_wav\<close> has the sample rate 44100 Hz and the subtype \<open>PCM_16\<close>.
\<close>

theorem written_at_44100_pcm16:
  "(apply_mood lib inp m i = Inr w \<longrightarrow> samplerate w = 44100 \<and> subtype w = ''PCM_16'')
   \<and> (normalize_wav lib inp = Inr w' \<longrightarrow> samplerate w' = 44100 \<and> subtype w' = ''PCM_16'')"
  using apply_mood_format normalize_wav_format by blast

lemma apply_mood_22050:
  "apply_mood plain_dsp \<lparr>samples = [1 / 2, 1 / 2], rate = 22050\<rparr> ''normal'' 3
     = Inr \<lparr>frames = [1 / 2, 1 / 2, 1 / 2], samplerate = 44100, subtype = ''PCM_16''\<rparr>"
  by (simp add: apply_mood_def normal_chain normalize_stage_def and_then_def external_def
      plain_dsp_def cubic_double_def peak_of_def TARGET_SR_def BIT_DEPTH_def)

lemma normalize_wav_22050:
  "normalize_wav plain_dsp \<lparr>samples = [1 / 2, 1 / 2], rate = 22050\<rparr>
     = Inr \<lparr>frames = [9 / 10, 9 / 10, 9 / 10], samplerate = 44100, subtype = ''PCM_16''\<rparr>"
  by (simp add: normalize_wav_def and_then_def external_def plain_dsp_def cubic_double_def
      peak_of_def scale_by_def TARGET_SR_def BIT_DEPTH_def)

theorem written_at_44100_pcm16_witness:
  "apply_mood plain_dsp \<lparr>samples = [1 / 2, 1 / 2], rate = 22050\<rparr> ''normal'' 3
     = Inr \<lparr>frames = [1 / 2, 1 / 2, 1 / 2], samplerate = 44100, subtype = ''PCM_16''\<rparr>
   \<and> normalize_wav plain_dsp \<lparr>samples = [1 / 2, 1 / 2], rate = 22050\<rparr>
     = Inr \<lparr>frames = [9 / 10, 9 / 10, 9 / 10], samplerate = 44100, subtype = ''PCM_16''\<rparr>
   \<and> samplerate \<lparr>frames = [1 / 2, 1 / 2, 1 / 2], samplerate = 44100, subtype = ''PCM_16''\<rparr>
     = 44100
   \<and> samplerate \<lparr>frames = [9 / 10, 9 / 10, 9 / 10], samplerate = 44100, subtype = ''PCM_16''\<rparr>
     = 44100"
  using written_at_44100_pcm16
    [of plain_dsp "\<lparr>samples = [1 / 2, 1 / 2], rate = 22050\<rparr>" "''normal''" 3
        "\<lparr>frames = [1 / 2, 1 / 2, 1 / 2], samplerate = 44100, subtype = ''PCM_16''\<rparr>"
        "\<lparr>frames = [9 / 10, 9 / 10, 9 / 10], samplerate = 44100, subtype = ''PCM_16''\<rparr>"]
    apply_mood_22050 normalize_wav_22050
  by simp

section \<open>Silence and the division by the peak\<close>

lemma scale_by_positive: "0 < p \<Longrightarrow> scale_by t p y = Inr (map (\<lambda>s. s * (t / p)) y)"
  by (simp add: scale_by_def)

lemma normalize_wav_no_zero_division: "normalize_wav lib inp \<noteq> Inl ZeroDivision"
proof
  assume a: "normalize_wav lib inp = Inl ZeroDivision"
  define r where "r = (if audio.rate inp \<noteq> TARGET_SR
      then external (resample lib (samples inp) (audio.rate inp) TARGET_SR)
      else Inr (samples inp))"
  have r: "r \<noteq> Inl ZeroDivision"
    by (auto simp: r_def external_def split: sum.splits)
  show False
  proof (cases r)
    case (Inl e)
    with a r show False by (simp add: normalize_wav_def and_then_def r_def [symmetric])
  next
    case (Inr y)
    show False
    proof (cases "peak_of y")
      case (Inl e)
      then have "e = ValueError" by (auto simp: peak_of_def split: if_splits)
      with a Inr Inl show False
        by (simp add: normalize_wav_def and_then_def r_def [symmetric])
    next
      case inr: (Inr p)
      with a Inr show False
        by (auto simp: normalize_wav_def and_then_def r_def [symmetric] scale_by_positive
            split: if_splits)
    qed
  qed
qed

lemma generate_espeak_no_zero_division: "generate_espeak lib syn text lang \<noteq> Inl ZeroDivision"
proof
  assume a: "generate_espeak lib syn text lang = Inl ZeroDivision"
  obtain code err raw where e: "espeak_ng syn (espeak_voice lang) text = (code, err, raw)"
    by (cases "espeak_ng syn (espeak_voice lang) text") auto
  with a have c: "code = 0" by (auto simp: generate_espeak_def split: if_splits)
  define r where "r = (if audio.rate raw \<noteq> 44100
      then external (resample lib (samples raw) (audio.rate raw) 44100)
      else Inr (samples raw))"
  have r: "r \<noteq> Inl ZeroDivision"
    by (auto simp: r_def external_def split: sum.splits)
  from a e c have a': "and_then r (\<lambda>y. and_then (peak_of y)
      (\<lambda>peak. and_then (if peak > 0 then scale_by (85 / 100) peak y else Inr y)
         (\<lambda>y. Inr \<lparr>frames = y, samplerate = 44100, subtype = ''PCM_16''\<rparr>))) = Inl ZeroDivision"
    by (auto simp: generate_espeak_def r_def Let_def split: if_splits)
  show False
  proof (cases r)
    case (Inl e)
    with a' r show False by (simp add: and_then_def)
  next
    case (Inr y)
    show False
    proof (cases "peak_of y")
      case (Inl e)
      then have "e = ValueError" by (auto simp: peak_of_def split: if_splits)
      with a' Inr Inl show False by (simp add: and_then_def)
    next
      case inr: (Inr p)
      with a' Inr show False
        by (auto simp: and_then_def scale_by_positive split: if_splits)
    qed
  qed
qed

lemma normalize_wav_silent:
  assumes "samples inp \<noteq> []" "\<forall>s\<in>set (samples inp). s = 0" "audio.rate inp = 44100"
  shows "normalize_wav lib inp
           = Inr \<lparr>frames = samples inp, samplerate = 44100, subtype = ''PCM_16''\<rparr>"
  using assms peak_of_silent [of "samples inp"]
  by (simp add: normalize_wav_def and_then_def TARGET_SR_def BIT_DEPTH_def)

lemma normalize_wav_silent_resampled:
  assumes "audio.rate inp \<noteq> 44100"
    "resample lib (samples inp) (audio.rate inp) 44100 = Inr y" "y \<noteq> []" "\<forall>s\<in>set y. s = 0"
  shows "normalize_wav lib inp = Inr \<lparr>frames = y, samplerate = 44100, subtype = ''PCM_16''\<rparr>"
  using assms peak_of_silent [of y]
  by (simp add: normalize_wav_def and_then_def external_def TARGET_SR_def BIT_DEPTH_def)

lemma generate_espeak_silent:
  assumes "espeak_ng syn (espeak_voice lang) text = (0, err, raw)"
    "samples raw \<noteq> []" "\<forall>s\<in>set (samples raw). s = 0" "audio.rate raw = 44100"
  shows "generate_espeak lib syn text lang
           = Inr \<lparr>frames = samples raw, samplerate = 44100, subtype = ''PCM_16''\<rparr>"
  using assms peak_of_silent [of "samples raw"]
  by (simp add: generate_espeak_def and_then_def)

lemma generate_espeak_silent_resampled:
  assumes "espeak_ng syn (espeak_voice lang) text = (0, err, raw)" "audio.rate raw \<noteq> 44100"
    "resample lib (samples raw) (audio.rate raw) 44100 = Inr y" "y \<noteq> []" "\<forall>s\<in>set y. s = 0"
  shows "generate_espeak lib syn text lang
           = Inr \<lparr>frames = y, samplerate = 44100, subtype = ''PCM_16''\<rparr>"
  using assms peak_of_silent [of y]
  by (simp add: generate_espeak_def and_then_def external_def)

text \<open>
  C10. \<^verbatim>\<open>normalize_wav\<close> and the fallback synthesis never divide by a zero peak.
  A silent signal (not empty, every sample 0) has peak 0, the scaling to 0.9 or 0.85 is
  skipped, and the signal is written as it is at 44100 Hz, 16-bit PCM; when the rate has to
  be converted first, this holds of the silent signal the resampler returns.
\<close>

theorem silent_input_written_unscaled:
  "normalize_wav lib inp \<noteq> Inl ZeroDivision
   \<and> generate_espeak lib syn text lang \<noteq> Inl ZeroDivision
   \<and> (samples inp \<noteq> [] \<and> (\<forall>s\<in>set (samples inp). s = 0) \<and> audio.rate inp = 44100 \<longrightarrow>
        normalize_wav lib inp
          = Inr \<lparr>frames = samples inp, samplerate = 44100, subtype = ''PCM_16''\<rparr>)
   \<and> (audio.rate inp' \<noteq> 44100
        \<and> resample lib (samples inp') (audio.rate inp') 44100 = Inr y
        \<and> y \<noteq> [] \<and> (\<forall>s\<in>set y. s = 0) \<longrightarrow>
        normalize_wav lib inp' = Inr \<lparr>frames = y, samplerate = 44100, subtype = ''PCM_16''\<rparr>)
   \<and> (espeak_ng syn (espeak_voice lang) text = (0, err, raw)
        \<and> samples raw \<noteq> [] \<and> (\<forall>s\<in>set (samples raw). s = 0) \<and> audio.rate raw = 44100 \<longrightarrow>
        generate_espeak lib syn text lang
          = Inr \<lparr>frames = samples raw, samplerate = 44100, subtype = ''PCM_16''\<rparr>)
   \<and> (espeak_ng syn' (espeak_voice lang') text' = (0, err', raw')
        \<and> audio.rate raw' \<noteq> 44100
        \<and> resample lib (samples raw') (audio.rate raw') 44100 = Inr y'
        \<and> y' \<noteq> [] \<and> (\<forall>s\<in>set y'. s = 0) \<longrightarrow>
        generate_espeak lib syn' text' lang'
          = Inr \<lparr>frames = y', samplerate = 44100, subtype = ''PCM_16''\<rparr>)"
  using normalize_wav_no_zero_division [of lib inp]
    generate_espeak_no_zero_division [of lib syn "text" lang]
    normalize_wav_silent [of inp lib]
    normalize_wav_silent_resampled [of inp' lib y]
    generate_espeak_silent [of syn lang "text" err raw lib]
    generate_espeak_silent_resampled [of syn' lang' text' err' raw' lib y']
  by blast

theorem silent_input_written_unscaled_witness:
  "normalize_wav plain_dsp \<lparr>samples = [0, 0], rate = 44100\<rparr>
     = Inr \<lparr>frames = [0, 0], samplerate = 44100, subtype = ''PCM_16''\<rparr>
   \<and> normalize_wav plain_dsp \<lparr>samples = [0, 0], rate = 22050\<rparr>
     = Inr \<lparr>frames = [0, 0, 0], samplerate = 44100, subtype = ''PCM_16''\<rparr>
   \<and> generate_espeak plain_dsp
        \<lparr>tts_to_file = (\<lambda>t text speaker lang. Inl ''no model''),
         espeak_ng = (\<lambda>voice text. (0, [], \<lparr>samples = [0, 0], rate = 44100\<rparr>))\<rparr> ''...'' ''en''
     = Inr \<lparr>frames = [0, 0], samplerate = 44100, subtype = ''PCM_16''\<rparr>
   \<and> generate_espeak plain_dsp
        \<lparr>tts_to_file = (\<lambda>t text speaker lang. Inl ''no model''),
         espeak_ng = (\<lambda>voice text. (0, [], \<lparr>samples = [0, 0], rate = 22050\<rparr>))\<rparr> ''...'' ''en''
     = Inr \<lparr>frames = [0, 0, 0], samplerate = 44100, subtype = ''PCM_16''\<rparr>"
  using silent_input_written_unscaled
    [of plain_dsp "\<lparr>samples = [0, 0], rate = 44100\<rparr>"
        "\<lparr>tts_to_file = (\<lambda>t text speaker lang. Inl ''no model''),
          espeak_ng = (\<lambda>voice text. (0, [], \<lparr>samples = [0, 0], rate = 44100\<rparr>))\<rparr>"
        "''...''" "''en''"
        "\<lparr>samples = [0, 0], rate = 22050\<rparr>" "[0, 0, 0]"
        "[]" "\<lparr>samples = [0, 0], rate = 44100\<rparr>"
        "\<lparr>tts_to_file = (\<lambda>t text speaker lang. Inl ''no model''),
          espeak_ng = (\<lambda>voice text. (0, [], \<lparr>samples = [0, 0], rate = 22050\<rparr>))\<rparr>"
        "''en''" "''...''" "[]" "\<lparr>samples = [0, 0], rate = 22050\<rparr>" "[0, 0, 0]"]
  by (simp add: plain_dsp_def cubic_double_def)

section \<open>The peak of the written signal\<close>

lemma normalize_stage_bound:
  assumes "normalize_stage y = Inr z" "s \<in> set z"
  shows "\<bar>s\<bar> \<le> 98 / 100"
proof -
  from assms(1) obtain p where p: "peak_of y = Inr p"
    by (cases "peak_of y") (auto simp: normalize_stage_def and_then_def)
  show ?thesis
  proof (cases "p > 98 / 100")
    case True
    with assms p have z: "z = map (\<lambda>s. s * (95 / 100 / p)) y"
      by (auto simp: normalize_stage_def and_then_def scale_by_def split: if_splits)
    with assms(2) obtain t where t: "t \<in> set y" "s = t * (95 / 100 / p)" by auto
    have "\<bar>t\<bar> \<le> p" using peak_of_bound [OF p t(1)] .
    then have "\<bar>t\<bar> / p \<le> 1" using True by simp
    then have "\<bar>t\<bar> / p * (95 / 100) \<le> 1 * (95 / 100)"
      by (rule mult_right_mono) simp
    moreover have "\<bar>s\<bar> = \<bar>t\<bar> / p * (95 / 100)" using t(2) True by (simp add: abs_mult)
    ultimately show ?thesis by simp
  next
    case False
    with assms p have "z = y"
      by (auto simp: normalize_stage_def and_then_def)
    with peak_of_bound [OF p] assms(2) False show ?thesis by fastforce
  qed
qed

lemma mood_chain_bound:
  "mood_chain lib inp m i = Inr y \<Longrightarrow> s \<in> set y \<Longrightarrow> \<bar>s\<bar> \<le> 98 / 100"
  by (auto simp: mood_chain_def and_then_def Let_def split: sum.splits
      dest: normalize_stage_bound)

lemma apply_mood_bound_at_target_rate:
  "apply_mood lib inp m i = Inr w \<Longrightarrow> audio.rate inp = 44100 \<Longrightarrow> s \<in> set (frames w)
   \<Longrightarrow> \<bar>s\<bar> \<le> 98 / 100"
  by (auto simp: apply_mood_def and_then_def TARGET_SR_def split: sum.splits
      dest: mood_chain_bound)

text \<open>
  C2. The buffer that leaves the peak normalisation has a peak of at most 0.98
  (\<open>mood_chain_bound\<close>), and so has the written signal when the input is at 44100 Hz
  (\<open>apply_mood_bound_at_target_rate\<close>). At any other rate \<^verbatim>\<open>apply_mood\<close> resamples
  after the normalisation and writes what the resampler returns, with no second look at
  the peak: for an input at 22050 Hz with peak 0.9 and a resampler that interpolates above
  its neighbours, the written signal has a sample of 1.125.
\<close>

theorem apply_mood_resampled_above_bound:
  "peak_of [- (9 / 10), 9 / 10, 9 / 10, - (9 / 10)] = Inr (9 / 10)
   \<and> apply_mood plain_dsp
         \<lparr>samples = [- (9 / 10), 9 / 10, 9 / 10, - (9 / 10)], rate = 22050\<rparr> ''normal'' 3
       = Inr \<lparr>frames = [- (9 / 10), 0, 9 / 10, 9 / 8, 9 / 10, 0, - (9 / 10)],
              samplerate = 44100, subtype = ''PCM_16''\<rparr>
   \<and> peak_of [- (9 / 10), 0, 9 / 10, 9 / 8, 9 / 10, 0, - (9 / 10)] = Inr (9 / 8)
   \<and> (98 / 100 :: real) < 9 / 8"
  by (simp add: apply_mood_def normal_chain normalize_stage_def peak_of_def
      and_then_def external_def plain_dsp_def cubic_double_def TARGET_SR_def BIT_DEPTH_def)

section \<open>The load of the model\<close>

lemma load_finish_outcome:
  "backend s = None \<Longrightarrow> tts_load env MODEL_NAME \<noteq> Aborted \<Longrightarrow>
   fst (load_finish env s) = None
   \<and> (status (snd (load_finish env s)), backend (snd (load_finish env s)))
        \<in> {(Ready, Some Xtts), (Ready, Some Espeak), (Error, None)}"
  by (simp add: load_finish_def split: load_result.splits)

lemma load_finish_aborted:
  "tts_load env MODEL_NAME = Aborted \<Longrightarrow> load_finish env s = (Some BaseException, s)"
  by (simp add: load_finish_def)

lemma load_finish_keeps_loading_or_ends:
  "status s = Loading \<Longrightarrow> backend s = None \<Longrightarrow>
   (status (snd (load_finish env s)) = Ready) = (backend (snd (load_finish env s)) \<noteq> None)"
  by (simp add: load_finish_def split: load_result.splits)

lemma load_model_init:
  "load_model env init = load_finish env (init\<lparr>status := Loading\<rparr>)"
  by (simp add: load_model_def load_begin_def init_def)

lemma load_model_init_outcome:
  assumes "tts_load env MODEL_NAME \<noteq> Aborted"
  shows "fst (load_model env init) = None
         \<and> (status (snd (load_model env init)), backend (snd (load_model env init)))
              \<in> {(Ready, Some Xtts), (Ready, Some Espeak), (Error, None)}"
proof -
  have "backend (init\<lparr>status := Loading\<rparr>) = None"
    by (simp add: init_def)
  from load_finish_outcome [OF this assms] show ?thesis
    by (simp only: load_model_init)
qed

lemma fire_invariant:
  assumes "attempts c \<le> 1" "attempts c = 1 \<longrightarrow> status (eng c) = Loading"
    "status (eng c) = Ready \<longleftrightarrow> backend (eng c) \<noteq> None"
    "fire e c = Some c'"
  shows "attempts c' \<le> 1 \<and> (attempts c' = 1 \<longrightarrow> status (eng c') = Loading)
         \<and> (status (eng c') = Ready \<longleftrightarrow> backend (eng c') \<noteq> None)"
proof (cases e)
  case Enter
  with assms show ?thesis
    by (auto simp: load_begin_def split: if_splits)
next
  case (Leave env)
  with assms have a: "attempts c = 1" "status (eng c) = Loading" "backend (eng c) = None"
    by (auto split: if_splits)
  from Leave assms(4) a
  have c': "c' = \<lparr>eng = snd (load_finish env (eng c)), attempts = 0\<rparr>"
    by simp
  from load_finish_keeps_loading_or_ends [OF a(2,3), of env] show ?thesis
    by (simp add: c')
qed

lemma run_invariant:
  "attempts c \<le> 1 \<Longrightarrow> (attempts c = 1 \<longrightarrow> status (eng c) = Loading)
   \<Longrightarrow> (status (eng c) = Ready \<longleftrightarrow> backend (eng c) \<noteq> None)
   \<Longrightarrow> run evs c = Some c'
   \<Longrightarrow> attempts c' \<le> 1 \<and> (attempts c' = 1 \<longrightarrow> status (eng c') = Loading)
       \<and> (status (eng c') = Ready \<longleftrightarrow> backend (eng c') \<noteq> None)"
proof (induction evs arbitrary: c)
  case Nil
  then show ?case by simp
next
  case (Cons e evs)
  from Cons.prems(4) obtain d where d: "fire e c = Some d" "run evs d = Some c'"
    by (auto split: option.splits)
  from fire_invariant [OF Cons.prems(1,2,3) d(1)]
  have "attempts d \<le> 1" "attempts d = 1 \<longrightarrow> status (eng d) = Loading"
    "status (eng d) = Ready \<longleftrightarrow> backend (eng d) \<noteq> None"
    by blast+
  from Cons.IH [OF this d(2)] show ?case .
qed

lemma reachable_invariant:
  assumes "run evs start = Some c"
  shows "attempts c \<le> 1 \<and> (attempts c = 1 \<longrightarrow> status (eng c) = Loading)
         \<and> (status (eng c) = Ready \<longleftrightarrow> backend (eng c) \<noteq> None)"
proof -
  have "attempts start \<le> 1" "attempts start = 1 \<longrightarrow> status (eng start) = Loading"
    "status (eng start) = Ready \<longleftrightarrow> backend (eng start) \<noteq> None"
    by (simp_all add: start_def init_def)
  from run_invariant [OF this assms] show ?thesis .
qed

lemma ready_is_final:
  assumes "run evs start = Some c" "status (eng c) = Ready" "fire e c = Some c'"
  shows "c' = c"
proof -
  from reachable_invariant [OF assms(1)] assms(2) have "attempts c = 0" by auto
  with assms(2,3) show ?thesis
    by (cases e) (auto simp: load_begin_def)
qed

lemma error_is_left_by_enter:
  assumes "run evs start = Some c" "status (eng c) = Error" "fire e c = Some c'"
  shows "e = Enter \<and> c' = \<lparr>eng = (eng c)\<lparr>status := Loading\<rparr>, attempts = 1\<rparr>"
proof -
  from reachable_invariant [OF assms(1)] assms(2) have "attempts c = 0" by auto
  with assms(2,3) show ?thesis
    by (cases e) (auto simp: load_begin_def)
qed

lemma loading_is_left_by_its_attempt:
  assumes "run evs start = Some c" "status (eng c) = Loading" "fire e c = Some c'"
  shows "(e = Enter \<and> c' = c)
         \<or> (\<exists>env. e = Leave env \<and> attempts c = 1
              \<and> c' = \<lparr>eng = snd (load_finish env (eng c)), attempts = 0\<rparr>
              \<and> (tts_load env MODEL_NAME \<noteq> Aborted \<longrightarrow>
                   (status (eng c'), backend (eng c'))
                     \<in> {(Ready, Some Xtts), (Ready, Some Espeak), (Error, None)}))"
proof (cases e)
  case Enter
  with assms(2,3) show ?thesis by (auto simp: load_begin_def)
next
  case (Leave env)
  with assms(3) have pos: "attempts c \<noteq> 0" by (auto split: if_splits)
  with reachable_invariant [OF assms(1)] assms(2)
  have a: "attempts c = 1" "backend (eng c) = None" by auto
  with Leave assms(3)
  have c': "c' = \<lparr>eng = snd (load_finish env (eng c)), attempts = 0\<rparr>" by simp
  have "(status (eng c'), backend (eng c'))
          \<in> {(Ready, Some Xtts), (Ready, Some Espeak), (Error, None)}"
    if "tts_load env MODEL_NAME \<noteq> Aborted"
    using load_finish_outcome [OF a(2) that] by (simp add: c')
  with Leave a(1) c' show ?thesis by blast
qed

text \<open>
  C1, as the code has it. A load that starts from the idle engine, and in which the
  constructor of the model returns or raises an \<^verbatim>\<open>Exception\<close>, raises nothing and ends
  in exactly one of ready with the primary backend, ready with the fallback, or error. In
  every execution at most one load attempt is under way, and only while the status is
  loading. Once the engine is ready nothing changes any more. While it is loading, another
  call of \<^verbatim>\<open>_load_model\<close> returns at once, and the only change is the end of the one
  attempt, under the same condition in one of the three states. From the error state a new
  call of \<^verbatim>\<open>_load_model\<close> starts another attempt: its guard stops on ready and loading
  only.
\<close>

theorem load_attempts_and_final_states:
  "(tts_load env MODEL_NAME \<noteq> Aborted \<longrightarrow>
      fst (load_model env init) = None
      \<and> (status (snd (load_model env init)), backend (snd (load_model env init)))
           \<in> {(Ready, Some Xtts), (Ready, Some Espeak), (Error, None)})
   \<and> (run evs start = Some c \<longrightarrow>
        attempts c \<le> 1 \<and> (attempts c = 1 \<longrightarrow> status (eng c) = Loading))
   \<and> (run evs start = Some c \<and> status (eng c) = Ready \<and> fire e c = Some c' \<longrightarrow> c' = c)
   \<and> (run evs start = Some c \<and> status (eng c) = Loading \<and> fire e c = Some c' \<longrightarrow>
        (e = Enter \<and> c' = c)
        \<or> (\<exists>env'. e = Leave env' \<and> attempts c = 1
             \<and> c' = \<lparr>eng = snd (load_finish env' (eng c)), attempts = 0\<rparr>
             \<and> (tts_load env' MODEL_NAME \<noteq> Aborted \<longrightarrow>
                  (status (eng c'), backend (eng c'))
                    \<in> {(Ready, Some Xtts), (Ready, Some Espeak), (Error, None)})))
   \<and> (run evs start = Some c \<and> status (eng c) = Error \<and> fire e c = Some c' \<longrightarrow>
        e = Enter \<and> c' = \<lparr>eng = (eng c)\<lparr>status := Loading\<rparr>, attempts = 1\<rparr>)"
  using load_model_init_outcome [of env] reachable_invariant [of evs c]
    ready_is_final [of evs c e c'] loading_is_left_by_its_attempt [of evs c e c']
    error_is_left_by_enter [of evs c e c']
  by blast

lemma run_failed_load:
  "run [Enter, Leave \<lparr>tts_load = (\<lambda>name. Failed ''no model''), which_espeak = False\<rparr>] start
     = Some \<lparr>eng = \<lparr>tts = None, status = Error, error_msg = Some ''no model'', backend = None\<rparr>,
             attempts = 0\<rparr>"
  by (simp add: start_def init_def load_begin_def load_finish_def)

text \<open>
  C1 as stated has no step out of a final state. After a failed load with no fallback the
  status is error, and the next \<^verbatim>\<open>initialize_async\<close> sets it to loading again.
\<close>

theorem initialize_after_error_loads_again:
  "run [Enter, Leave \<lparr>tts_load = (\<lambda>name. Failed ''no model''), which_espeak = False\<rparr>] start
     = Some \<lparr>eng = \<lparr>tts = None, status = Error, error_msg = Some ''no model'', backend = None\<rparr>,
             attempts = 0\<rparr>
   \<and> fire Enter
        \<lparr>eng = \<lparr>tts = None, status = Error, error_msg = Some ''no model'', backend = None\<rparr>,
         attempts = 0\<rparr>
     = Some \<lparr>eng = \<lparr>tts = None, status = Loading, error_msg = Some ''no model'',
                    backend = None\<rparr>,
             attempts = 1\<rparr>"
  by (simp add: start_def init_def load_begin_def load_finish_def)

theorem load_attempts_and_final_states_witness:
  "tts_load \<lparr>tts_load = (\<lambda>name. Loaded (TTS name)), which_espeak = True\<rparr> MODEL_NAME \<noteq> Aborted
   \<and> load_model \<lparr>tts_load = (\<lambda>name. Loaded (TTS name)), which_espeak = True\<rparr> init
       = (None, \<lparr>tts = Some (TTS MODEL_NAME), status = Ready, error_msg = None,
                 backend = Some Xtts\<rparr>)
   \<and> run [Enter] start = Some \<lparr>eng = init\<lparr>status := Loading\<rparr>, attempts = 1\<rparr>
   \<and> status (eng \<lparr>eng = init\<lparr>status := Loading\<rparr>, attempts = 1\<rparr>) = Loading
   \<and> fire (Leave \<lparr>tts_load = (\<lambda>name. Loaded (TTS name)), which_espeak = True\<rparr>)
        \<lparr>eng = init\<lparr>status := Loading\<rparr>, attempts = 1\<rparr>
       = Some \<lparr>eng = \<lparr>tts = Some (TTS MODEL_NAME), status = Ready, error_msg = None,
                      backend = Some Xtts\<rparr>, attempts = 0\<rparr>
   \<and> run [Enter, Leave \<lparr>tts_load = (\<lambda>name. Loaded (TTS name)), which_espeak = True\<rparr>] start
       = Some \<lparr>eng = \<lparr>tts = Some (TTS MODEL_NAME), status = Ready, error_msg = None,
                      backend = Some Xtts\<rparr>, attempts = 0\<rparr>
   \<and> fire Enter \<lparr>eng = \<lparr>tts = Some (TTS MODEL_NAME), status = Ready, error_msg = None,
                         backend = Some Xtts\<rparr>, attempts = 0\<rparr>
       = Some \<lparr>eng = \<lparr>tts = Some (TTS MODEL_NAME), status = Ready, error_msg = None,
                      backend = Some Xtts\<rparr>, attempts = 0\<rparr>
   \<and> run [Enter, Leave \<lparr>tts_load = (\<lambda>name. Failed ''no model''), which_espeak = False\<rparr>] start
       = Some \<lparr>eng = \<lparr>tts = None, status = Error, error_msg = Some ''no model'',
                      backend = None\<rparr>, attempts = 0\<rparr>
   \<and> fire Enter \<lparr>eng = \<lparr>tts = None, status = Error, error_msg = Some ''no model'',
                         backend = None\<rparr>, attempts = 0\<rparr>
       = Some \<lparr>eng = \<lparr>tts = None, status = Loading, error_msg = Some ''no model'',
                      backend = None\<rparr>, attempts = 1\<rparr>"
proof -
  let ?ok = "\<lparr>tts_load = (\<lambda>name. Loaded (TTS name)), which_espeak = True\<rparr>"
  let ?r = "\<lparr>tts = Some (TTS MODEL_NAME), status = Ready, error_msg = None,
             backend = Some Xtts\<rparr>"
  let ?c1 = "\<lparr>eng = init\<lparr>status := Loading\<rparr>, attempts = 1\<rparr>"
  let ?c2 = "\<lparr>eng = ?r, attempts = 0\<rparr>"
  let ?c3 = "\<lparr>eng = \<lparr>tts = None, status = Error, error_msg = Some ''no model'',
                      backend = None\<rparr>, attempts = 0\<rparr>"
  let ?c4 = "\<lparr>eng = \<lparr>tts = None, status = Loading, error_msg = Some ''no model'',
                      backend = None\<rparr>, attempts = 1\<rparr>"
  have ok: "tts_load ?ok MODEL_NAME \<noteq> Aborted" by simp
  have m: "load_model ?ok init = (None, ?r)"
    by (simp add: load_model_def load_begin_def load_finish_def init_def)
  have r1: "run [Enter] start = Some ?c1"
    by (simp add: start_def init_def load_begin_def)
  have s1: "status (eng ?c1) = Loading" by simp
  have f1: "fire (Leave ?ok) ?c1 = Some ?c2"
    by (simp add: init_def load_finish_def)
  have r2: "run [Enter, Leave ?ok] start = Some ?c2"
    by (simp add: start_def init_def load_begin_def load_finish_def)
  have s2: "status (eng ?c2) = Ready" by simp
  have f2: "fire Enter ?c2 = Some ?c2" by (simp add: load_begin_def)
  have s3: "status (eng ?c3) = Error" by simp
  have f3: "fire Enter ?c3 = Some ?c4" by (simp add: load_begin_def)
  from load_attempts_and_final_states [of ?ok "[Enter]" ?c1 "Leave ?ok" ?c2] ok r1 s1 f1
  have "fst (load_model ?ok init) = None \<and> attempts ?c1 \<le> 1" by blast
  moreover
  from load_attempts_and_final_states [of ?ok "[Enter, Leave ?ok]" ?c2 Enter ?c2] r2 s2 f2
  have "?c2 = ?c2" by blast
  moreover
  from load_attempts_and_final_states
    [of ?ok "[Enter, Leave \<lparr>tts_load = (\<lambda>name. Failed ''no model''), which_espeak = False\<rparr>]"
        ?c3 Enter ?c4]
    run_failed_load s3 f3
  have "?c4 = \<lparr>eng = (eng ?c3)\<lparr>status := Loading\<rparr>, attempts = 1\<rparr>" by blast
  ultimately show ?thesis using ok m r1 s1 f1 r2 f2 f3 run_failed_load by simp
qed

text \<open>
  Outside what C1 is stated for above: when the constructor raises something line 98 does
  not catch, the attempt ends with no assignment. The status stays loading with no attempt
  under way, and from there no event changes the engine again.
\<close>

lemma aborted_load_stays_loading:
  "run [Enter, Leave \<lparr>tts_load = (\<lambda>name. Aborted), which_espeak = True\<rparr>] start
     = Some \<lparr>eng = init\<lparr>status := Loading\<rparr>, attempts = 0\<rparr>
   \<and> fire Enter \<lparr>eng = init\<lparr>status := Loading\<rparr>, attempts = 0\<rparr>
       = Some \<lparr>eng = init\<lparr>status := Loading\<rparr>, attempts = 0\<rparr>
   \<and> fire (Leave env) \<lparr>eng = init\<lparr>status := Loading\<rparr>, attempts = 0\<rparr> = None"
  by (simp add: start_def init_def load_begin_def load_finish_def)

section \<open>Waiting for the load\<close>

lemma wait_ready_le: "wait_ready observed n k \<le> k + n"
proof (induction n arbitrary: k)
  case 0
  then show ?case by simp
next
  case (Suc n)
  from Suc.IH [of "Suc k"] show ?case by simp
qed

lemma wait_ready_still_loading:
  "(\<forall>j. k < j \<and> j \<le> k + n \<longrightarrow> status (observed j) \<noteq> Ready \<and> status (observed j) \<noteq> Error)
   \<Longrightarrow> wait_ready observed n k = k + n"
proof (induction n arbitrary: k)
  case 0
  then show ?case by simp
next
  case (Suc n)
  from Suc.prems have "status (observed (Suc k)) \<noteq> Ready \<and> status (observed (Suc k)) \<noteq> Error"
    by simp
  moreover have "wait_ready observed n (Suc k) = Suc k + n"
    using Suc.prems by (intro Suc.IH) auto
  ultimately show ?case by simp
qed

lemma wait_ready_first:
  "k < m \<Longrightarrow> m \<le> k + n
   \<Longrightarrow> (\<forall>j. k < j \<and> j < m \<longrightarrow> status (observed j) \<noteq> Ready \<and> status (observed j) \<noteq> Error)
   \<Longrightarrow> status (observed m) = Ready \<or> status (observed m) = Error
   \<Longrightarrow> wait_ready observed n k = m"
proof (induction n arbitrary: k)
  case 0
  then show ?case by simp
next
  case (Suc n)
  show ?case
  proof (cases "m = Suc k")
    case True
    with Suc.prems(4) show ?thesis by auto
  next
    case False
    with Suc.prems have a: "Suc k < m" "m \<le> Suc k + n" by auto
    from Suc.prems(1,3) False
    have b: "status (observed (Suc k)) \<noteq> Ready \<and> status (observed (Suc k)) \<noteq> Error"
      by auto
    have "wait_ready observed n (Suc k) = m"
      using a Suc.prems(3,4) by (intro Suc.IH) auto
    with b show ?thesis by simp
  qed
qed

lemma load_model_raises:
  "fst (load_model env s) = Some e \<Longrightarrow>
   e = BaseException \<and> status (snd (load_model env s)) = Loading"
  by (auto simp: load_model_def load_begin_def load_finish_def
      split: if_splits load_result.splits)

lemma ensure_ready_failed:
  "status s = Error \<Longrightarrow> backend s = None \<Longrightarrow>
   ensure_ready env observed s
     = (Some (RuntimeError (''TTS engine failed to initialize: '' @ show_msg (error_msg s))), s)"
  by (simp add: ensure_ready_def)

lemma ensure_ready_failed_iff:
  "fst (ensure_ready env observed s)
     = Some (RuntimeError (''TTS engine failed to initialize: ''
                           @ show_msg (error_msg (snd (ensure_ready env observed s)))))
   \<longleftrightarrow> status (snd (ensure_ready env observed s)) = Error
       \<and> backend (snd (ensure_ready env observed s)) = None"
proof -
  define r where "r = (if status s = Idle then load_model env s
      else if status s = Loading then (None, observed (wait_ready observed 600 0))
      else (None, s))"
  obtain x s' where r: "r = (x, s')" by (cases r)
  show ?thesis
  proof (cases x)
    case None
    with r show ?thesis
      by (simp add: ensure_ready_def r_def [symmetric])
  next
    case (Some e)
    with r have "status s = Idle" "load_model env s = (Some e, s')"
      by (auto simp: r_def split: if_splits)
    with load_model_raises [of env s e] have "e = BaseException" "status s' = Loading"
      by simp_all
    with r Some show ?thesis
      by (simp add: ensure_ready_def r_def [symmetric])
  qed
qed

lemma ensure_ready_timeout:
  assumes "status s = Loading"
    "\<forall>k\<in>{1..600}. status (observed k) = Loading"
  shows "ensure_ready env observed s
           = (Some (RuntimeError ''TTS engine not ready.''), observed 600)"
proof -
  have "wait_ready observed 600 0 = 0 + 600"
    using assms(2) by (intro wait_ready_still_loading) auto
  moreover have "status (observed 600) = Loading" using assms(2) by simp
  ultimately show ?thesis using assms(1) by (simp add: ensure_ready_def)
qed

lemma ensure_ready_poll:
  assumes "status s = Loading" "1 \<le> n" "n \<le> 600"
    "\<forall>k\<in>{1..<n}. status (observed k) = Loading"
    "status (observed n) = Ready \<or> status (observed n) = Error"
  shows "wait_ready observed 600 0 = n \<and> snd (ensure_ready env observed s) = observed n"
proof -
  have "wait_ready observed 600 0 = n"
    using assms by (intro wait_ready_first) auto
  with assms(1) show ?thesis
    by (simp add: ensure_ready_def Let_def)
qed

lemma generate_failed:
  "status s = Error \<Longrightarrow> backend s = None \<Longrightarrow>
   generate lib env syn observed s utterance speaker_wav language
     = (Inl (RuntimeError (''TTS engine failed to initialize: '' @ show_msg (error_msg s))), s)"
  by (simp add: generate_def ensure_ready_failed)

lemma error_has_no_backend:
  "run evs start = Some c \<Longrightarrow> status (eng c) = Error \<Longrightarrow> backend (eng c) = None"
  using reachable_invariant [of evs c] by auto

text \<open>
  C8. \<^verbatim>\<open>ensure_ready\<close> raises the initialisation error exactly when the engine it
  checks has the status error and no backend, and in every reachable error state there is
  no backend. While the status is loading it looks once a second, stops at the first look
  that shows ready or error, and gives up after 600 looks: if all of them show loading,
  it raises the not-ready error. From the error state with no backend, \<^verbatim>\<open>ensure_ready\<close>
  and with it \<^verbatim>\<open>generate\<close> raise the initialisation error and leave the engine as it
  is.
\<close>

theorem ensure_ready_failures:
  "(fst (ensure_ready env observed s)
      = Some (RuntimeError (''TTS engine failed to initialize: ''
                            @ show_msg (error_msg (snd (ensure_ready env observed s)))))
    \<longleftrightarrow> status (snd (ensure_ready env observed s)) = Error
        \<and> backend (snd (ensure_ready env observed s)) = None)
   \<and> (run evs start = Some c \<and> status (eng c) = Error \<longrightarrow> backend (eng c) = None)
   \<and> (status s = Loading \<and> (\<forall>k\<in>{1..600}. status (observed k) = Loading) \<longrightarrow>
        ensure_ready env observed s
          = (Some (RuntimeError ''TTS engine not ready.''), observed 600))
   \<and> (status s = Loading \<and> 1 \<le> n \<and> n \<le> 600
        \<and> (\<forall>k\<in>{1..<n}. status (observed k) = Loading)
        \<and> (status (observed n) = Ready \<or> status (observed n) = Error) \<longrightarrow>
        wait_ready observed 600 0 = n \<and> snd (ensure_ready env observed s) = observed n)
   \<and> wait_ready observed 600 0 \<le> 600
   \<and> (status s = Error \<and> backend s = None \<longrightarrow>
        ensure_ready env observed s
          = (Some (RuntimeError (''TTS engine failed to initialize: ''
                                 @ show_msg (error_msg s))), s)
        \<and> generate lib env syn observed s utterance speaker_wav language
          = (Inl (RuntimeError (''TTS engine failed to initialize: ''
                                @ show_msg (error_msg s))), s))"
  using ensure_ready_failed_iff [of env observed s] error_has_no_backend [of evs c]
    ensure_ready_timeout [of s observed env] ensure_ready_poll [of s n observed env]
    wait_ready_le [of observed 600 0] ensure_ready_failed [of s env observed]
    generate_failed [of s lib env syn observed utterance speaker_wav language]
  by (simp only: add_0) blast

theorem ensure_ready_failures_witness:
  "status (init\<lparr>status := Loading\<rparr>) = Loading
   \<and> ensure_ready \<lparr>tts_load = (\<lambda>name. Loaded (TTS name)), which_espeak = True\<rparr>
        (\<lambda>k. init\<lparr>status := Loading\<rparr>) (init\<lparr>status := Loading\<rparr>)
       = (Some (RuntimeError ''TTS engine not ready.''), init\<lparr>status := Loading\<rparr>)
   \<and> wait_ready
        (\<lambda>k. if k < 3 then init\<lparr>status := Loading\<rparr> else init\<lparr>status := Error\<rparr>) 600 0
       = 3
   \<and> run [Enter, Leave \<lparr>tts_load = (\<lambda>name. Failed ''no model''), which_espeak = False\<rparr>] start
       = Some \<lparr>eng = \<lparr>tts = None, status = Error, error_msg = Some ''no model'',
                      backend = None\<rparr>, attempts = 0\<rparr>
   \<and> generate plain_dsp \<lparr>tts_load = (\<lambda>name. Loaded (TTS name)), which_espeak = True\<rparr>
        \<lparr>tts_to_file = (\<lambda>t text speaker lang. Inl ''no model''),
          espeak_ng = (\<lambda>voice text. (0, [], \<lparr>samples = [0], rate = 44100\<rparr>))\<rparr>
        (\<lambda>k. init)
        \<lparr>tts = None, status = Error, error_msg = Some ''no model'', backend = None\<rparr>
        ''hello'' ''ref.wav'' ''en''
       = (Inl (RuntimeError ''TTS engine failed to initialize: no model''),
          \<lparr>tts = None, status = Error, error_msg = Some ''no model'', backend = None\<rparr>)"
proof -
  let ?env = "\<lparr>tts_load = (\<lambda>name. Loaded (TTS name)), which_espeak = True\<rparr>"
  let ?syn = "\<lparr>tts_to_file = (\<lambda>t text speaker lang. Inl ''no model''),
          espeak_ng = (\<lambda>voice text. (0, [], \<lparr>samples = [0], rate = 44100\<rparr>))\<rparr>"
  let ?l = "init\<lparr>status := Loading\<rparr>"
  let ?e = "\<lparr>tts = None, status = Error, error_msg = Some ''no model'', backend = None\<rparr>"
  let ?obs = "\<lambda>k::nat. if k < 3 then ?l else init\<lparr>status := Error\<rparr>"
  have l: "status ?l = Loading" by simp
  have still: "\<forall>k\<in>{1..600}. status ((\<lambda>k. ?l) k) = Loading" by simp
  from ensure_ready_failures [of ?env "\<lambda>k. ?l" ?l] l still
  have a: "ensure_ready ?env (\<lambda>k. ?l) ?l = (Some (RuntimeError ''TTS engine not ready.''), ?l)"
    by blast
  have "\<forall>k\<in>{1..<3}. status (?obs k) = Loading" by simp
  moreover have "status (?obs 3) = Ready \<or> status (?obs 3) = Error" by simp
  moreover have "(1::nat) \<le> 3 \<and> (3::nat) \<le> 600" by simp
  ultimately have b: "wait_ready ?obs 600 0 = 3"
    using ensure_ready_failures [of ?env ?obs ?l _ _ 3] l by blast
  have "status ?e = Error \<and> backend ?e = None" by simp
  with ensure_ready_failures
    [of ?env "\<lambda>k. init" ?e _ _ _ plain_dsp ?syn "''hello''" "''ref.wav''" "''en''"]
  have c: "generate plain_dsp ?env ?syn (\<lambda>k. init) ?e ''hello'' ''ref.wav'' ''en''
       = (Inl (RuntimeError (''TTS engine failed to initialize: '' @ show_msg (error_msg ?e))), ?e)"
    by blast
  have "status (eng \<lparr>eng = ?e, attempts = 0\<rparr>) = Error" by simp
  with ensure_ready_failures
    [of ?env "\<lambda>k. init" ?e
        "[Enter, Leave \<lparr>tts_load = (\<lambda>name. Failed ''no model''), which_espeak = False\<rparr>]"
        "\<lparr>eng = ?e, attempts = 0\<rparr>"]
    run_failed_load
  have d: "backend (eng \<lparr>eng = ?e, attempts = 0\<rparr>) = None" by blast
  from l still a b c d run_failed_load show ?thesis by (simp add: show_msg_def)
qed

section \<open>The fallback\<close>

lemma scaled_bound:
  assumes "peak_of y = Inr p" "0 < p" "0 \<le> t" "x \<in> set (map (\<lambda>s. s * (t / p)) y)"
  shows "\<bar>x\<bar> \<le> t"
proof -
  from assms(4) obtain s where s: "s \<in> set y" "x = s * (t / p)" by auto
  have "\<bar>s\<bar> \<le> p" using peak_of_bound [OF assms(1) s(1)] .
  then have "\<bar>s\<bar> / p \<le> 1" using assms(2) by simp
  then have "\<bar>s\<bar> / p * t \<le> 1 * t" using assms(3) by (rule mult_right_mono)
  moreover have "\<bar>x\<bar> = \<bar>s\<bar> / p * t" using s(2) assms(2,3) by (simp add: abs_mult)
  ultimately show ?thesis by simp
qed

lemma peak_scaled_bound:
  assumes "peak_of y = Inr p"
    "(if p > 0 then scale_by t p y else Inr y) = Inr z" "0 \<le> t" "x \<in> set z"
  shows "\<bar>x\<bar> \<le> t"
proof (cases "p > 0")
  case True
  with assms(2) have "z = map (\<lambda>s. s * (t / p)) y" by (simp add: scale_by_positive)
  with scaled_bound [OF assms(1) True assms(3)] assms(4) show ?thesis by simp
next
  case False
  with peak_of_nonneg [OF assms(1)] have "p = 0" by simp
  moreover from False assms(2) have "z = y" by simp
  ultimately have "\<bar>x\<bar> \<le> 0" using peak_of_bound [OF assms(1), of x] assms(4) by simp
  with assms(3) show ?thesis by simp
qed

lemma generate_espeak_bound:
  assumes "generate_espeak lib syn utterance language = Inr w" "x \<in> set (frames w)"
  shows "\<bar>x\<bar> \<le> 85 / 100"
proof -
  obtain code err raw where
    e: "espeak_ng syn (espeak_voice language) utterance = (code, err, raw)"
    by (cases "espeak_ng syn (espeak_voice language) utterance") auto
  define r where "r = (if audio.rate raw \<noteq> 44100
      then external (resample lib (samples raw) (audio.rate raw) 44100)
      else Inr (samples raw))"
  from assms(1) e have a: "and_then r (\<lambda>y. and_then (peak_of y)
      (\<lambda>peak. and_then (if peak > 0 then scale_by (85 / 100) peak y else Inr y)
         (\<lambda>y. Inr \<lparr>frames = y, samplerate = 44100, subtype = ''PCM_16''\<rparr>))) = Inr w"
    by (auto simp: generate_espeak_def r_def Let_def split: if_splits)
  then obtain y where y: "r = Inr y" by (cases r) (auto simp: and_then_def)
  with a obtain p where p: "peak_of y = Inr p"
    by (cases "peak_of y") (auto simp: and_then_def)
  with a y obtain z where
    z: "(if p > 0 then scale_by (85 / 100) p y else Inr y) = Inr z" "frames w = z"
    by (cases "if p > 0 then scale_by (85 / 100) p y else Inr y") (auto simp: and_then_def)
  from peak_scaled_bound [OF p z(1)] assms(2) z(2) show ?thesis by simp
qed

lemma generate_with_fallback:
  "status s = Ready \<Longrightarrow> backend s = Some Espeak \<Longrightarrow>
   generate lib env syn observed s utterance speaker_wav language
     = (generate_espeak lib syn utterance language, s)"
  by (simp add: generate_def ensure_ready_def)

lemma load_model_fallback:
  assumes "tts_load env MODEL_NAME = Failed e" "which_espeak env"
  shows "load_model env init
           = (None, \<lparr>tts = None, status = Ready, error_msg = Some e, backend = Some Espeak\<rparr>)"
  using assms by (simp add: load_model_def load_begin_def load_finish_def init_def)

lemma generate_espeak_value:
  assumes "espeak_ng syn (espeak_voice language) utterance = (code, err, raw)"
  shows "generate_espeak lib syn utterance language =
     (if code \<noteq> 0 then Inl (RuntimeError (''espeak-ng error: '' @ err))
      else case (if audio.rate raw = 44100 then Inr (samples raw)
                 else resample lib (samples raw) (audio.rate raw) 44100) of
             Inl msg \<Rightarrow> Inl (LibraryError msg)
           | Inr y \<Rightarrow>
               if y = [] then Inl ValueError
               else Inr \<lparr>frames = (if 0 < Max (set (map abs y))
                                    then map (\<lambda>s. s * (85 / 100 / Max (set (map abs y)))) y
                                    else y),
                         samplerate = 44100, subtype = ''PCM_16''\<rparr>)"
  using assms
  by (auto simp: generate_espeak_def Let_def and_then_def external_def peak_of_def scale_by_def
      split: sum.splits)

lemma peak_after_scaling:
  assumes "y \<noteq> []" "0 < Max (set (map abs y))" "0 \<le> (t::real)"
  shows "Max (set (map abs (map (\<lambda>s. s * (t / Max (set (map abs y)))) y))) = t"
proof -
  let ?p = "Max (set (map abs y))"
  let ?A = "set (map abs y)"
  have c: "0 \<le> t / ?p" using assms(2,3) by simp
  have "\<bar>s * (t / ?p)\<bar> = \<bar>s\<bar> * (t / ?p)" for s
    by (simp only: abs_mult abs_of_nonneg [OF c])
  then have img: "set (map abs (map (\<lambda>s. s * (t / ?p)) y)) = (\<lambda>x. x * (t / ?p)) ` ?A"
    by (simp only: set_map image_image)
  have mn: "mono (\<lambda>x::real. x * (t / ?p))"
    by (rule monoI) (rule mult_right_mono [OF _ c])
  have fin: "finite ?A" by simp
  have ne: "?A \<noteq> {}" using assms(1) by simp
  have "Max ((\<lambda>x. x * (t / ?p)) ` ?A) = ?p * (t / ?p)"
    using mono_Max_commute [OF mn fin ne] by (rule sym)
  also have "\<dots> = t" using assms(2) by simp
  finally show ?thesis by (simp only: img)
qed

text \<open>
  C7. When the load of the primary model fails with the message \<open>e\<close> and
  \<^verbatim>\<open>espeak-ng\<close> is installed, the idle engine goes to loading and then to ready with
  the fallback backend, and keeps \<open>e\<close> as its error message. A call of
  \<^verbatim>\<open>generate\<close> in that state is the fallback synthesis and leaves the engine as it is.
  The fallback raises when \<^verbatim>\<open>espeak-ng\<close> returns another code than 0, when the
  resampler fails and when the signal is empty; otherwise it writes, at 44100 Hz and as
  16-bit PCM, the signal of \<^verbatim>\<open>espeak-ng\<close> (resampled when its rate differs) multiplied
  by 0.85/peak, or as it is when the peak is 0. So when \<^verbatim>\<open>espeak-ng\<close> returns 0 with a
  signal that is not empty, the call succeeds with exactly these frames, every sample is
  within 0.85, and the peak of a signal that is not silent is 0.85.
\<close>

theorem fallback_ready_then_synthesis:
  "tts_load env MODEL_NAME = Failed e \<and> which_espeak env \<longrightarrow>
     load_begin init = (True, init\<lparr>status := Loading\<rparr>)
     \<and> load_finish env (init\<lparr>status := Loading\<rparr>)
         = (None, \<lparr>tts = None, status = Ready, error_msg = Some e, backend = Some Espeak\<rparr>)
     \<and> load_model env init
         = (None, \<lparr>tts = None, status = Ready, error_msg = Some e, backend = Some Espeak\<rparr>)
     \<and> generate lib env' syn observed
          \<lparr>tts = None, status = Ready, error_msg = Some e, backend = Some Espeak\<rparr>
          utterance speaker_wav language
         = (generate_espeak lib syn utterance language,
            \<lparr>tts = None, status = Ready, error_msg = Some e, backend = Some Espeak\<rparr>)
     \<and> (espeak_ng syn (espeak_voice language) utterance = (code, err, raw) \<longrightarrow>
          generate_espeak lib syn utterance language =
            (if code \<noteq> 0 then Inl (RuntimeError (''espeak-ng error: '' @ err))
             else case (if audio.rate raw = 44100 then Inr (samples raw)
                        else resample lib (samples raw) (audio.rate raw) 44100) of
                    Inl msg \<Rightarrow> Inl (LibraryError msg)
                  | Inr y \<Rightarrow>
                      if y = [] then Inl ValueError
                      else Inr \<lparr>frames =
                                  (if 0 < Max (set (map abs y))
                                   then map (\<lambda>s. s * (85 / 100 / Max (set (map abs y)))) y
                                   else y),
                                samplerate = 44100, subtype = ''PCM_16''\<rparr>))
     \<and> (espeak_ng syn (espeak_voice language) utterance = (0, err, raw)
          \<and> (if audio.rate raw = 44100 then Inr (samples raw)
              else resample lib (samples raw) (audio.rate raw) 44100) = Inr y
          \<and> y \<noteq> [] \<longrightarrow>
          generate lib env' syn observed
            \<lparr>tts = None, status = Ready, error_msg = Some e, backend = Some Espeak\<rparr>
            utterance speaker_wav language
            = (Inr \<lparr>frames = (if 0 < Max (set (map abs y))
                               then map (\<lambda>s. s * (85 / 100 / Max (set (map abs y)))) y
                               else y),
                    samplerate = 44100, subtype = ''PCM_16''\<rparr>,
               \<lparr>tts = None, status = Ready, error_msg = Some e, backend = Some Espeak\<rparr>)
          \<and> (\<forall>x\<in>set (if 0 < Max (set (map abs y))
                        then map (\<lambda>s. s * (85 / 100 / Max (set (map abs y)))) y
                        else y). \<bar>x\<bar> \<le> 85 / 100)
          \<and> (0 < Max (set (map abs y)) \<longrightarrow>
                Max (set (map abs (map (\<lambda>s. s * (85 / 100 / Max (set (map abs y)))) y)))
                  = 85 / 100))"
proof (intro impI, elim conjE)
  assume fail: "tts_load env MODEL_NAME = Failed e" and tool: "which_espeak env"
  let ?s = "\<lparr>tts = None, status = Ready, error_msg = Some e, backend = Some Espeak\<rparr>"
  let ?f = "\<lambda>y::samples. if 0 < Max (set (map abs y))
                        then map (\<lambda>s. s * (85 / 100 / Max (set (map abs y)))) y
                        else y"
  have b: "load_begin init = (True, init\<lparr>status := Loading\<rparr>)"
    by (simp add: load_begin_def init_def)
  have f: "load_finish env (init\<lparr>status := Loading\<rparr>) = (None, ?s)"
    using fail tool by (simp add: load_finish_def init_def)
  have m: "load_model env init = (None, ?s)"
    using load_model_fallback [OF fail tool] .
  have g: "generate lib env' syn observed ?s utterance speaker_wav language
             = (generate_espeak lib syn utterance language, ?s)"
    by (rule generate_with_fallback) simp_all
  have v: "generate_espeak lib syn utterance language =
            (if code \<noteq> 0 then Inl (RuntimeError (''espeak-ng error: '' @ err))
             else case (if audio.rate raw = 44100 then Inr (samples raw)
                        else resample lib (samples raw) (audio.rate raw) 44100) of
                    Inl msg \<Rightarrow> Inl (LibraryError msg)
                  | Inr y \<Rightarrow>
                      if y = [] then Inl ValueError
                      else Inr \<lparr>frames = ?f y, samplerate = 44100, subtype = ''PCM_16''\<rparr>)"
    if "espeak_ng syn (espeak_voice language) utterance = (code, err, raw)"
    using generate_espeak_value [OF that] .
  have ok: "generate lib env' syn observed ?s utterance speaker_wav language
              = (Inr \<lparr>frames = ?f y, samplerate = 44100, subtype = ''PCM_16''\<rparr>, ?s)
          \<and> (\<forall>x\<in>set (?f y). \<bar>x\<bar> \<le> 85 / 100)
          \<and> (0 < Max (set (map abs y)) \<longrightarrow>
                Max (set (map abs (map (\<lambda>s. s * (85 / 100 / Max (set (map abs y)))) y)))
                  = 85 / 100)"
    if h: "espeak_ng syn (espeak_voice language) utterance = (0, err, raw)
          \<and> (if audio.rate raw = 44100 then Inr (samples raw)
              else resample lib (samples raw) (audio.rate raw) 44100) = Inr y
          \<and> y \<noteq> []"
  proof -
    from h have e0: "espeak_ng syn (espeak_voice language) utterance = (0, err, raw)"
      and r: "(if audio.rate raw = 44100 then Inr (samples raw)
              else resample lib (samples raw) (audio.rate raw) 44100) = Inr y"
      and ne: "y \<noteq> []" by blast+
    have w: "generate_espeak lib syn utterance language
               = Inr \<lparr>frames = ?f y, samplerate = 44100, subtype = ''PCM_16''\<rparr>"
      using generate_espeak_value [OF e0, of lib] r ne by simp
    have bound: "\<forall>x\<in>set (?f y). \<bar>x\<bar> \<le> 85 / 100"
      using generate_espeak_bound [OF w] by simp
    have peak: "Max (set (map abs (map (\<lambda>s. s * (85 / 100 / Max (set (map abs y)))) y)))
                  = 85 / 100"
      if "0 < Max (set (map abs y))"
      using peak_after_scaling [OF ne that, of "85 / 100"] by simp
    from g w bound peak show ?thesis by simp
  qed
  from b f m g v ok
  show "load_begin init = (True, init\<lparr>status := Loading\<rparr>)
     \<and> load_finish env (init\<lparr>status := Loading\<rparr>) = (None, ?s)
     \<and> load_model env init = (None, ?s)
     \<and> generate lib env' syn observed ?s utterance speaker_wav language
         = (generate_espeak lib syn utterance language, ?s)
     \<and> (espeak_ng syn (espeak_voice language) utterance = (code, err, raw) \<longrightarrow>
          generate_espeak lib syn utterance language =
            (if code \<noteq> 0 then Inl (RuntimeError (''espeak-ng error: '' @ err))
             else case (if audio.rate raw = 44100 then Inr (samples raw)
                        else resample lib (samples raw) (audio.rate raw) 44100) of
                    Inl msg \<Rightarrow> Inl (LibraryError msg)
                  | Inr y \<Rightarrow>
                      if y = [] then Inl ValueError
                      else Inr \<lparr>frames = ?f y, samplerate = 44100, subtype = ''PCM_16''\<rparr>))
     \<and> (espeak_ng syn (espeak_voice language) utterance = (0, err, raw)
          \<and> (if audio.rate raw = 44100 then Inr (samples raw)
              else resample lib (samples raw) (audio.rate raw) 44100) = Inr y
          \<and> y \<noteq> [] \<longrightarrow>
          generate lib env' syn observed ?s utterance speaker_wav language
            = (Inr \<lparr>frames = ?f y, samplerate = 44100, subtype = ''PCM_16''\<rparr>, ?s)
          \<and> (\<forall>x\<in>set (?f y). \<bar>x\<bar> \<le> 85 / 100)
          \<and> (0 < Max (set (map abs y)) \<longrightarrow>
                Max (set (map abs (map (\<lambda>s. s * (85 / 100 / Max (set (map abs y)))) y)))
                  = 85 / 100))"
    by blast
qed

theorem fallback_ready_then_synthesis_witness:
  "tts_load \<lparr>tts_load = (\<lambda>name. Failed ''no model''), which_espeak = True\<rparr> MODEL_NAME
     = Failed ''no model''
   \<and> which_espeak \<lparr>tts_load = (\<lambda>name. Failed ''no model''), which_espeak = True\<rparr>
   \<and> load_model \<lparr>tts_load = (\<lambda>name. Failed ''no model''), which_espeak = True\<rparr> init
       = (None,
          \<lparr>tts = None, status = Ready, error_msg = Some ''no model'', backend = Some Espeak\<rparr>)
   \<and> espeak_ng
        \<lparr>tts_to_file = (\<lambda>t text speaker lang. Inl ''no model''),
         espeak_ng = (\<lambda>voice text. (0, [], \<lparr>samples = [1 / 2, - (1 / 4)], rate = 22050\<rparr>))\<rparr>
        (espeak_voice ''en'') ''hello''
       = (0, [], \<lparr>samples = [1 / 2, - (1 / 4)], rate = 22050\<rparr>)
   \<and> resample plain_dsp [1 / 2, - (1 / 4)] 22050 44100 = Inr [1 / 2, 1 / 8, - (1 / 4)]
   \<and> generate plain_dsp
        \<lparr>tts_load = (\<lambda>name. Failed ''no model''), which_espeak = True\<rparr>
        \<lparr>tts_to_file = (\<lambda>t text speaker lang. Inl ''no model''),
         espeak_ng = (\<lambda>voice text. (0, [], \<lparr>samples = [1 / 2, - (1 / 4)], rate = 22050\<rparr>))\<rparr>
        (\<lambda>k. init)
        \<lparr>tts = None, status = Ready, error_msg = Some ''no model'', backend = Some Espeak\<rparr>
        ''hello'' ''ref.wav'' ''en''
       = (Inr \<lparr>frames = [85 / 100, 85 / 400, - (85 / 200)],
               samplerate = 44100, subtype = ''PCM_16''\<rparr>,
          \<lparr>tts = None, status = Ready, error_msg = Some ''no model'', backend = Some Espeak\<rparr>)
   \<and> Max (set (map abs [85 / 100, 85 / 400, - (85 / 200) :: real])) = 85 / 100"
proof -
  let ?env = "\<lparr>tts_load = (\<lambda>name. Failed ''no model''), which_espeak = True\<rparr>"
  let ?raw = "\<lparr>samples = [1 / 2, - (1 / 4)], rate = 22050\<rparr>"
  let ?syn = "\<lparr>tts_to_file = (\<lambda>t text speaker lang. Inl ''no model''),
               espeak_ng = (\<lambda>voice text. (0, [], ?raw))\<rparr>"
  let ?y = "[1 / 2, 1 / 8, - (1 / 4) :: real]"
  have h1: "tts_load ?env MODEL_NAME = Failed ''no model'' \<and> which_espeak ?env" by simp
  have r: "resample plain_dsp [1 / 2, - (1 / 4)] 22050 44100 = Inr ?y"
    by (simp add: plain_dsp_def cubic_double_def)
  have h2: "espeak_ng ?syn (espeak_voice ''en'') ''hello'' = (0, [], ?raw)
          \<and> (if audio.rate ?raw = 44100 then Inr (samples ?raw)
              else resample plain_dsp (samples ?raw) (audio.rate ?raw) 44100) = Inr ?y
          \<and> ?y \<noteq> []"
    using r by simp
  have p: "Max (set (map abs ?y)) = 1 / 2" by simp
  note t = fallback_ready_then_synthesis
    [of ?env "''no model''" plain_dsp ?env ?syn "\<lambda>k. init" "''hello''" "''ref.wav''" "''en''"
        0 "[]" ?raw ?y]
  from t h1 have m: "load_model ?env init
       = (None,
          \<lparr>tts = None, status = Ready, error_msg = Some ''no model'', backend = Some Espeak\<rparr>)"
    by blast
  from t h1 h2
  have g: "generate plain_dsp ?env ?syn (\<lambda>k. init)
        \<lparr>tts = None, status = Ready, error_msg = Some ''no model'', backend = Some Espeak\<rparr>
        ''hello'' ''ref.wav'' ''en''
       = (Inr \<lparr>frames = (if 0 < Max (set (map abs ?y))
                          then map (\<lambda>s. s * (85 / 100 / Max (set (map abs ?y)))) ?y
                          else ?y),
               samplerate = 44100, subtype = ''PCM_16''\<rparr>,
          \<lparr>tts = None, status = Ready, error_msg = Some ''no model'', backend = Some Espeak\<rparr>)"
    by blast
  have fr: "(if 0 < Max (set (map abs ?y))
             then map (\<lambda>s. s * (85 / 100 / Max (set (map abs ?y)))) ?y else ?y)
            = [85 / 100, 85 / 400, - (85 / 200)]"
    by (simp only: p) simp
  from h1 h2 r m g [unfolded fr] show ?thesis by simp
qed

end
